theory Spec2Isabelle
  imports Complex_Main
begin

section \<open>Geometry and time\<close>

text \<open>
  The navigator of MRPT works on \<open>double\<close> values. They are modelled by the reals: every
  comparison and every arithmetic step of the source is kept, rounding is not modelled.
\<close>

record TPoint2D =
  pt_x :: real
  pt_y :: real

record TPose2D =
  pose_x :: real
  pose_y :: real
  pose_phi :: real

record TTwist2D =
  vx :: real
  vy :: real
  omega :: real

type_synonym TTimeStamp = real

definition INVALID_TIMESTAMP :: TTimeStamp where
  \<comment> \<open>Modelled from the spec: the sentinel of \<open>mrpt::system\<close> (declared outside the
      sources at hand); timestamps are in seconds (spec section 6).\<close>
  "INVALID_TIMESTAMP = 0"

definition timeDifference :: "TTimeStamp \<Rightarrow> TTimeStamp \<Rightarrow> real" where
  \<comment> \<open>Modelled from the spec: \<open>mrpt::system::timeDifference(t1, t2)\<close>, the seconds from
      \<open>t1\<close> to \<open>t2\<close> ("now - last-improvement-time", spec section 4.1).\<close>
  "timeDifference t1 t2 = t2 - t1"

definition DBL_MAX :: real where
  \<comment> \<open>\<open>std::numeric_limits<double>::max()\<close>\<close>
  "DBL_MAX = (2 - 1 / 2 ^ 52) * 2 ^ 1023"

definition hypot :: "real \<Rightarrow> real \<Rightarrow> real" where
  "hypot a b = sqrt (a * a + b * b)"

definition point_of_pose :: "TPose2D \<Rightarrow> TPoint2D" where
  \<comment> \<open>\<open>mrpt::math::TPoint2D(const TPose2D &)\<close>\<close>
  "point_of_pose p = \<lparr>pt_x = pose_x p, pt_y = pose_y p\<rparr>"

definition point_distance :: "TPoint2D \<Rightarrow> TPoint2D \<Rightarrow> real" where
  "point_distance a b = hypot (pt_x a - pt_x b) (pt_y a - pt_y b)"

definition segment_distance :: "TPoint2D \<Rightarrow> TPoint2D \<Rightarrow> TPoint2D \<Rightarrow> real" where
  \<comment> \<open>Modelled from the spec: \<open>TSegment2D(point1, point2).distance(p)\<close> of \<open>mrpt::math\<close>,
      "the shortest distance from the target to that segment" (spec section 4.1): the
      distance to the orthogonal projection when it falls inside the segment, to the nearer
      end point otherwise.\<close>
  "segment_distance point1 point2 p =
     (let dx = pt_x point2 - pt_x point1; dy = pt_y point2 - pt_y point1;
          len2 = dx * dx + dy * dy
      in if len2 = 0 then point_distance p point1
         else let t = ((pt_x p - pt_x point1) * dx + (pt_y p - pt_y point1) * dy) / len2
              in if t < 0 then point_distance p point1
                 else if t > 1 then point_distance p point2
                 else point_distance p \<lparr>pt_x = pt_x point1 + t * dx, pt_y = pt_y point1 + t * dy\<rparr>)"

definition rotate :: "real \<Rightarrow> TTwist2D \<Rightarrow> TTwist2D" where
  \<comment> \<open>Modelled from the spec: \<open>TTwist2D::rotate(ang)\<close>, "body-frame velocity equals global
      velocity rotated by -phi" (spec section 3).\<close>
  "rotate ang v = \<lparr>vx = vx v * cos ang - vy v * sin ang,
                   vy = vx v * sin ang + vy v * cos ang,
                   omega = omega v\<rparr>"

definition composeFrom :: "TPose2D \<Rightarrow> TPose2D \<Rightarrow> TPose2D" where
  \<comment> \<open>Modelled from the spec: \<open>CPose2D::composeFrom(A, B)\<close>, the pose \<open>B\<close> given in the
      frame of \<open>A\<close> (spec section 8, scenario "Relative target").\<close>
  "composeFrom a b =
     \<lparr>pose_x = pose_x a + pose_x b * cos (pose_phi a) - pose_y b * sin (pose_phi a),
      pose_y = pose_y a + pose_x b * sin (pose_phi a) + pose_y b * cos (pose_phi a),
      pose_phi = pose_phi a + pose_phi b\<rparr>"

definition inverseComposePoint :: "TPose2D \<Rightarrow> TPoint2D \<Rightarrow> TPoint2D" where
  \<comment> \<open>Modelled from the spec: \<open>CPose2D::inverseComposePoint(g, l)\<close>, the global point \<open>g\<close>
      in "robot-local coordinates" (spec section 4.2).\<close>
  "inverseComposePoint a g =
     \<lparr>pt_x = (pt_x g - pose_x a) * cos (pose_phi a) + (pt_y g - pose_y a) * sin (pose_phi a),
      pt_y = - (pt_x g - pose_x a) * sin (pose_phi a) + (pt_y g - pose_y a) * cos (pose_phi a)\<rparr>"

definition norm_pt :: "TPoint2D \<Rightarrow> real" where
  \<comment> \<open>\<open>TPoint2D::norm()\<close>\<close>
  "norm_pt p = hypot (pt_x p) (pt_y p)"

section \<open>The navigator state machine (CAbstractNavigator)\<close>

datatype TState = IDLE | NAVIGATING | SUSPENDED | NAV_ERROR

record TNavigationParams =
  target :: TPose2D
  targetAllowedDistance :: real
  targetIsRelative :: bool
  targetIsIntermediaryWaypoint :: bool

record TRobotPoseVel =
  pose :: TPose2D
  velGlobal :: TTwist2D
  velLocal :: TTwist2D
  timestamp :: TTimeStamp

record TAbstractNavigatorParams =
  dist_to_target_for_sending_event :: real
  alarm_seems_not_approaching_target_timeout :: real

text \<open>
  Every call the navigator makes on its \<open>CRobot2NavInterface\<close> is appended to a trace, the
  field \<open>m_robot\<close> of the navigator. The velocity commands of the reactive pipeline are
  recorded without their payload.
\<close>

datatype robot_call =
    GetNavigationTime
  | GetCurrentPoseAndSpeeds
  | Stop bool
  | StartWatchdog nat
  | StopWatchdog
  | ChangeSpeeds
  | ChangeSpeedsNOP
  | SendNavigationStartEvent
  | SendNavigationEndEvent
  | SendNavigationEndDueToErrorEvent
  | SendWaySeemsBlockedEvent
  | SendWaypointReachedEvent int
  | SendNewWaypointTargetEvent int

record navigator =
  m_lastNavigationState :: TState
  m_navigationEndEventSent :: bool
  m_navigationState :: TState
  m_navigationParams :: "TNavigationParams option"
  m_lastNavTargetReached :: bool
  m_robot :: "robot_call list"
  m_curPoseVel :: TRobotPoseVel
  m_last_curPoseVelUpdate_robot_time :: real
  m_latestPoses :: "(TTimeStamp \<times> TPose2D) list"
  m_badNavAlarm_minDistTarget :: real
  m_badNavAlarm_lastMinDistTime :: TTimeStamp
  params_abstract_navigator :: TAbstractNavigatorParams

text \<open>
  What the robot, the clocks and the derived class answer during one call. The outcome of
  the derived \<open>performNavigationStep()\<close> is one of the four ways
  \<open>CAbstractPTGBasedReactive::performNavigationStep\<close> ends: a new velocity command was
  sent, the previous one was kept (NOP), the best command was a stop (\<open>stop(true)\<close>, the
  navigation goes on), or \<open>doEmergencyStop\<close> was called.
\<close>

datatype perform_outcome = SentCommand | SentNOP | StopCommand | EmergencyStop

record environment =
  env_robot_time :: real
  env_pose :: "(TPose2D \<times> TTwist2D \<times> TTimeStamp) option"
  env_now :: TTimeStamp
  env_perform :: perform_outcome
  env_reachable :: "TPoint2D \<Rightarrow> bool"

definition PREVIOUS_POSES_MAX_AGE :: real where
  "PREVIOUS_POSES_MAX_AGE = 20"

definition TRobotPoseVel_init :: TRobotPoseVel where
  "TRobotPoseVel_init =
     \<lparr>pose = \<lparr>pose_x = 0, pose_y = 0, pose_phi = 0\<rparr>,
      velGlobal = \<lparr>vx = 0, vy = 0, omega = 0\<rparr>,
      velLocal = \<lparr>vx = 0, vy = 0, omega = 0\<rparr>,
      timestamp = INVALID_TIMESTAMP\<rparr>"

definition TAbstractNavigatorParams_init :: TAbstractNavigatorParams where
  "TAbstractNavigatorParams_init =
     \<lparr>dist_to_target_for_sending_event = 0,
      alarm_seems_not_approaching_target_timeout = 30\<rparr>"

definition TNavigationParams_init :: TNavigationParams where
  "TNavigationParams_init =
     \<lparr>target = \<lparr>pose_x = 0, pose_y = 0, pose_phi = 0\<rparr>,
      targetAllowedDistance = 0.5,
      targetIsRelative = False,
      targetIsIntermediaryWaypoint = False\<rparr>"

definition CAbstractNavigator :: "real \<Rightarrow> TTimeStamp \<Rightarrow> navigator" where
  \<comment> \<open>The constructor. It leaves the two fields of the stall alarm uninitialised; their
      indeterminate values are the arguments.\<close>
  "CAbstractNavigator u_dist u_time =
     \<lparr>m_lastNavigationState = IDLE,
      m_navigationEndEventSent = False,
      m_navigationState = IDLE,
      m_navigationParams = None,
      m_lastNavTargetReached = False,
      m_robot = [],
      m_curPoseVel = TRobotPoseVel_init,
      m_last_curPoseVelUpdate_robot_time = - 1000000000,
      m_latestPoses = [],
      m_badNavAlarm_minDistTarget = u_dist,
      m_badNavAlarm_lastMinDistTime = u_time,
      params_abstract_navigator = TAbstractNavigatorParams_init\<rparr>"

definition robot :: "robot_call \<Rightarrow> 'a navigator_scheme \<Rightarrow> 'a navigator_scheme" where
  "robot c st = st\<lparr>m_robot := m_robot st @ [c]\<rparr>"

definition stop :: "bool \<Rightarrow> 'a navigator_scheme \<Rightarrow> 'a navigator_scheme" where
  "stop isEmergencyStop st = robot (Stop isEmergencyStop) st"

definition cancel :: "'a navigator_scheme \<Rightarrow> 'a navigator_scheme" where
  "cancel st = stop False (st\<lparr>m_navigationState := IDLE, m_lastNavTargetReached := False\<rparr>)"

definition resume :: "'a navigator_scheme \<Rightarrow> 'a navigator_scheme" where
  "resume st = (if m_navigationState st = SUSPENDED then st\<lparr>m_navigationState := NAVIGATING\<rparr> else st)"

definition suspend :: "'a navigator_scheme \<Rightarrow> 'a navigator_scheme" where
  "suspend st = (if m_navigationState st = NAVIGATING then st\<lparr>m_navigationState := SUSPENDED\<rparr> else st)"

definition resetNavError :: "'a navigator_scheme \<Rightarrow> 'a navigator_scheme" where
  "resetNavError st = (if m_navigationState st = NAV_ERROR then st\<lparr>m_navigationState := IDLE\<rparr> else st)"

definition doEmergencyStop :: "'a navigator_scheme \<Rightarrow> 'a navigator_scheme" where
  "doEmergencyStop st = (stop True st)\<lparr>m_navigationState := NAV_ERROR\<rparr>"

subsection \<open>The pose history and its refresh\<close>

fun insert_pose :: "TTimeStamp \<Rightarrow> TPose2D \<Rightarrow> (TTimeStamp \<times> TPose2D) list \<Rightarrow> (TTimeStamp \<times> TPose2D) list" where
  \<comment> \<open>\<open>CPose3DInterpolator::insert\<close>: a map ordered by timestamp, a second pose at one
      timestamp replaces the first.\<close>
  "insert_pose t p [] = [(t, p)]"
| "insert_pose t p (e # es) =
     (if t < fst e then (t, p) # e # es
      else if t = fst e then (t, p) # es
      else e # insert_pose t p es)"

fun purge_old :: "(TTimeStamp \<times> TPose2D) list \<Rightarrow> (TTimeStamp \<times> TPose2D) list" where
  \<comment> \<open>The loop "while more than one pose is kept and the oldest is more than
      \<open>PREVIOUS_POSES_MAX_AGE\<close> older than the newest, erase the oldest".\<close>
  "purge_old [] = []"
| "purge_old [e] = [e]"
| "purge_old (e # e' # es) =
     (if timeDifference (fst e) (fst (last (e' # es))) > PREVIOUS_POSES_MAX_AGE
      then purge_old (e' # es) else e # e' # es)"

definition MIN_TIME_BETWEEN_POSE_UPDATES :: real where
  "MIN_TIME_BETWEEN_POSE_UPDATES = 20 / 1000"

definition updateCurrentPoseAndSpeeds ::
  "environment \<Rightarrow> 'a navigator_scheme \<Rightarrow> bool \<times> 'a navigator_scheme" where
  \<comment> \<open>The first component tells whether the \<open>std::runtime_error\<close> was thrown.\<close>
  "updateCurrentPoseAndSpeeds env st0 =
     (let st = robot GetNavigationTime st0;
          robot_time_secs = env_robot_time env
      in if m_last_curPoseVelUpdate_robot_time st \<ge> 0 \<and>
            robot_time_secs - m_last_curPoseVelUpdate_robot_time st < MIN_TIME_BETWEEN_POSE_UPDATES
         then (False, st)
         else (case env_pose env of
                 None \<Rightarrow>
                   (True, stop True ((robot GetCurrentPoseAndSpeeds st)\<lparr>m_navigationState := NAV_ERROR\<rparr>))
               | Some (p, v, t) \<Rightarrow>
                   (False,
                    (robot GetCurrentPoseAndSpeeds st)
                      \<lparr>m_curPoseVel := \<lparr>pose = p, velGlobal = v,
                                        velLocal = rotate (- pose_phi p) v, timestamp = t\<rparr>,
                       m_last_curPoseVelUpdate_robot_time := robot_time_secs,
                       m_latestPoses := purge_old (insert_pose t p (m_latestPoses st))\<rparr>)))"

subsection \<open>navigate()\<close>

definition navigate ::
  "environment \<Rightarrow> TNavigationParams \<Rightarrow> 'a navigator_scheme \<Rightarrow> bool \<times> 'a navigator_scheme" where
  \<comment> \<open>The first component tells whether the exception of the pose refresh left the call.\<close>
  "navigate env params st0 =
     (let st1 = st0\<lparr>m_navigationEndEventSent := False, m_lastNavTargetReached := False,
                    m_navigationParams := Some params\<rparr>;
          (raised, st2) =
            (if targetIsRelative params
             then (let (r, s) = updateCurrentPoseAndSpeeds env st1
                   in if r then (True, s)
                      else (False,
                            s\<lparr>m_navigationParams :=
                                Some (params\<lparr>target := composeFrom (pose (m_curPoseVel s)) (target params),
                                             targetIsRelative := False\<rparr>)\<rparr>))
             else (False, st1))
      in if raised then (True, st2)
         else (False,
               st2\<lparr>m_navigationState := NAVIGATING,
                   m_badNavAlarm_minDistTarget := DBL_MAX,
                   m_badNavAlarm_lastMinDistTime := env_now env\<rparr>))"

subsection \<open>navigationStep()\<close>

definition onStartNewNavigation :: "'a navigator_scheme \<Rightarrow> 'a navigator_scheme" where
  \<comment> \<open>\<open>CAbstractPTGBasedReactive::onStartNewNavigation\<close>, the part on the fields of the base
      class (it also resets the last sent velocity command).\<close>
  "onStartNewNavigation st = st\<lparr>m_last_curPoseVelUpdate_robot_time := - 1000000000\<rparr>"

definition performNavigationStep :: "environment \<Rightarrow> 'a navigator_scheme \<Rightarrow> 'a navigator_scheme" where
  "performNavigationStep env st =
     (case env_perform env of
        SentCommand \<Rightarrow> robot ChangeSpeeds st
      | SentNOP \<Rightarrow> robot ChangeSpeedsNOP st
      | StopCommand \<Rightarrow> stop True st
      | EmergencyStop \<Rightarrow> doEmergencyStop st)"

definition start_of_navigation :: "'a navigator_scheme \<Rightarrow> 'a navigator_scheme" where
  \<comment> \<open>The first two statements of \<open>case NAVIGATING\<close>.\<close>
  "start_of_navigation st =
     (let st1 = (if m_lastNavigationState st \<noteq> NAVIGATING
                 then onStartNewNavigation ((robot (StartWatchdog 1000) st)\<lparr>m_latestPoses := []\<rparr>)
                 else st)
      in if m_lastNavigationState st1 = IDLE then robot SendNavigationStartEvent st1 else st1)"

definition seg_robot_mov :: "'a navigator_scheme \<Rightarrow> TPoint2D \<times> TPoint2D" where
  \<comment> \<open>The segment from the current pose to the previous one of the history (to the newest one
      when the history holds one pose); the history is not empty here.\<close>
  "seg_robot_mov st =
     (point_of_pose (pose (m_curPoseVel st)),
      (if length (m_latestPoses st) > 1
       then point_of_pose (snd (m_latestPoses st ! (length (m_latestPoses st) - 2)))
       else point_of_pose (snd (last (m_latestPoses st)))))"

definition targetDist :: "'a navigator_scheme \<Rightarrow> TNavigationParams \<Rightarrow> real" where
  "targetDist st p =
     segment_distance (fst (seg_robot_mov st)) (snd (seg_robot_mov st)) (point_of_pose (target p))"

definition arrival_and_alarm ::
  "environment \<Rightarrow> TNavigationParams \<Rightarrow> real \<Rightarrow> 'a navigator_scheme \<Rightarrow> 'a navigator_scheme" where
  \<comment> \<open>From "Should End of navigation event be sent??" to the call of the derived step.\<close>
  "arrival_and_alarm env p d st0 =
     (let st = (if \<not> targetIsIntermediaryWaypoint p \<and> \<not> m_navigationEndEventSent st0 \<and>
                   d < dist_to_target_for_sending_event (params_abstract_navigator st0)
                then robot SendNavigationEndEvent (st0\<lparr>m_navigationEndEventSent := True\<rparr>)
                else st0)
      in if d < targetAllowedDistance p
         then (let st1 = st\<lparr>m_lastNavTargetReached := True\<rparr>;
                   st2 = (if \<not> targetIsIntermediaryWaypoint p then stop False st1 else st1);
                   st3 = st2\<lparr>m_navigationState := IDLE\<rparr>
               in if \<not> targetIsIntermediaryWaypoint p \<and> \<not> m_navigationEndEventSent st3
                  then robot SendNavigationEndEvent (st3\<lparr>m_navigationEndEventSent := True\<rparr>)
                  else st3)
         else if d < m_badNavAlarm_minDistTarget st
         then performNavigationStep env
                (st\<lparr>m_badNavAlarm_minDistTarget := d, m_badNavAlarm_lastMinDistTime := env_now env\<rparr>)
         else if timeDifference (m_badNavAlarm_lastMinDistTime st) (env_now env)
                   > alarm_seems_not_approaching_target_timeout (params_abstract_navigator st)
         then robot SendWaySeemsBlockedEvent (st\<lparr>m_navigationState := NAV_ERROR\<rparr>)
         else performNavigationStep env st)"

definition case_NAVIGATING :: "environment \<Rightarrow> 'a navigator_scheme \<Rightarrow> 'a navigator_scheme" where
  \<comment> \<open>The \<open>try\<close> block of \<open>case NAVIGATING\<close>. The exception of a failed pose read and the
      one of \<open>ASSERT_(!m_latestPoses.empty())\<close> are caught by its handlers, which only print.
      A null \<open>m_navigationParams\<close> cannot occur in this state (only \<open>navigate\<close> enters it,
      after storing the parameters); the model then leaves the state as it is.\<close>
  "case_NAVIGATING env st0 =
     (let (raised, st) = updateCurrentPoseAndSpeeds env (start_of_navigation st0)
      in if raised then st
         else if m_latestPoses st = [] then st
         else (case m_navigationParams st of
                 None \<Rightarrow> st
               | Some p \<Rightarrow> arrival_and_alarm env p (targetDist st p) st))"

definition case_IDLE_SUSPENDED :: "'a navigator_scheme \<Rightarrow> 'a navigator_scheme" where
  "case_IDLE_SUSPENDED st =
     (if m_lastNavigationState st = NAVIGATING then robot StopWatchdog st else st)"

definition case_NAV_ERROR :: "'a navigator_scheme \<Rightarrow> 'a navigator_scheme" where
  "case_NAV_ERROR st0 =
     (let st = (if m_lastNavigationState st0 = NAVIGATING \<and> m_navigationState st0 = NAV_ERROR
                then robot SendNavigationEndDueToErrorEvent st0 else st0)
      in if m_lastNavigationState st = NAVIGATING
         then robot StopWatchdog (stop False st) else st)"

definition navigationStep :: "environment \<Rightarrow> 'a navigator_scheme \<Rightarrow> 'a navigator_scheme" where
  "navigationStep env st =
     (let prevState = m_navigationState st;
          st' = (case m_navigationState st of
                   IDLE \<Rightarrow> case_IDLE_SUSPENDED st
                 | SUSPENDED \<Rightarrow> case_IDLE_SUSPENDED st
                 | NAV_ERROR \<Rightarrow> case_NAV_ERROR st
                 | NAVIGATING \<Rightarrow> case_NAVIGATING env st)
      in st'\<lparr>m_lastNavigationState := prevState\<rparr>)"

definition pose_refresh :: "environment \<Rightarrow> 'a navigator_scheme \<Rightarrow> bool \<times> 'a navigator_scheme" where
  \<comment> \<open>The tick of a navigating robot up to the refreshed pose: whether the refresh threw, and
      the navigator at the line "Have we reached the target location?".\<close>
  "pose_refresh env st = updateCurrentPoseAndSpeeds env (start_of_navigation st)"

subsection \<open>Runs of the public interface\<close>

definition calls_of_step :: "environment \<Rightarrow> 'a navigator_scheme \<Rightarrow> robot_call list" where
  \<comment> \<open>The calls on the robot interface made during one \<open>navigationStep()\<close>.\<close>
  "calls_of_step env st = drop (length (m_robot st)) (m_robot (navigationStep env st))"

datatype action =
    Navigate environment TNavigationParams
  | Cancel
  | Suspend
  | Resume
  | ResetNavError
  | Tick environment

fun apply_action :: "action \<Rightarrow> 'a navigator_scheme \<Rightarrow> 'a navigator_scheme" where
  "apply_action (Navigate env params) st = snd (navigate env params st)"
| "apply_action Cancel st = cancel st"
| "apply_action Suspend st = suspend st"
| "apply_action Resume st = resume st"
| "apply_action ResetNavError st = resetNavError st"
| "apply_action (Tick env) st = navigationStep env st"

fun run :: "action list \<Rightarrow> 'a navigator_scheme \<Rightarrow> 'a navigator_scheme" where
  "run [] st = st"
| "run (a # as) st = run as (apply_action a st)"


definition intermediary_only :: "'a navigator_scheme \<Rightarrow> bool" where
  \<comment> \<open>The target of the current navigation, if there is one, is an intermediary waypoint.\<close>
  "intermediary_only st =
     (case m_navigationParams st of None \<Rightarrow> True | Some p \<Rightarrow> targetIsIntermediaryWaypoint p)"

section \<open>The waypoint sequencer (CWaypointsNavigator)\<close>

definition INVALID_NUM :: real where
  \<comment> \<open>Modelled from the spec: \<open>TWaypoint::INVALID_NUM\<close>, the value of a heading or coordinate
      that is not set ("optional heading", spec section 3); its declaration is outside the
      sources at hand.\<close>
  "INVALID_NUM = DBL_MAX"

record TWaypoint =
  wp_target :: TPoint2D
  target_heading :: real
  allowed_distance :: real
  allow_skip :: bool

record TWaypointStatus = TWaypoint +
  reached :: bool
  counter_seen_reachable :: int

record TWaypointStatusSequence =
  waypoints :: "TWaypointStatus list"
  timestamp_nav_started :: TTimeStamp
  final_goal_reached :: bool
  waypoint_index_current_goal :: int
  last_robot_pose :: TPose2D

record TWaypointsNavigatorParams =
  max_distance_to_allow_skip_waypoint :: real
  min_timesteps_confirm_skip_waypoints :: int

record waypoints_navigator = navigator +
  m_waypoint_nav_status :: TWaypointStatusSequence
  params_waypoints_navigator :: TWaypointsNavigatorParams

definition TWaypointStatusSequence_init :: TWaypointStatusSequence where
  \<comment> \<open>Modelled from the spec: the default sequence, "current-goal index (-1 until started)",
      no waypoint, no pose observed yet (spec section 3).\<close>
  "TWaypointStatusSequence_init =
     \<lparr>waypoints = [],
      timestamp_nav_started = INVALID_TIMESTAMP,
      final_goal_reached = False,
      waypoint_index_current_goal = - 1,
      last_robot_pose = \<lparr>pose_x = INVALID_NUM, pose_y = INVALID_NUM, pose_phi = INVALID_NUM\<rparr>\<rparr>"

definition TWaypointsNavigatorParams_init :: TWaypointsNavigatorParams where
  "TWaypointsNavigatorParams_init =
     \<lparr>max_distance_to_allow_skip_waypoint = - 1,
      min_timesteps_confirm_skip_waypoints = 1\<rparr>"

definition CWaypointsNavigator :: "real \<Rightarrow> TTimeStamp \<Rightarrow> waypoints_navigator" where
  "CWaypointsNavigator u_dist u_time =
     navigator.extend (CAbstractNavigator u_dist u_time)
       (waypoints_navigator.fields TWaypointStatusSequence_init TWaypointsNavigatorParams_init)"

definition isValid :: "TWaypoint \<Rightarrow> bool" where
  \<comment> \<open>Modelled from the spec: \<open>TWaypoint::isValid()\<close>, the target point and the allowed
      distance are set.\<close>
  "isValid w = (pt_x (wp_target w) \<noteq> INVALID_NUM \<and> pt_y (wp_target w) \<noteq> INVALID_NUM \<and>
                allowed_distance w \<noteq> INVALID_NUM)"

definition status_of_waypoint :: "TWaypoint \<Rightarrow> TWaypointStatus" where
  \<comment> \<open>The assignment of a \<open>TWaypoint\<close> to a fresh \<open>TWaypointStatus\<close>: "copy waypoints fields
      data, leave status fields to defaults".\<close>
  "status_of_waypoint w = TWaypoint.extend w (TWaypointStatus.fields False 0)"

definition TWaypointStatus_init :: TWaypointStatus where
  \<comment> \<open>Modelled from the spec: a default waypoint status, nothing set, skipping allowed, not
      reached, never seen reachable (spec section 3).\<close>
  "TWaypointStatus_init =
     \<lparr>wp_target = \<lparr>pt_x = INVALID_NUM, pt_y = INVALID_NUM\<rparr>, target_heading = INVALID_NUM,
      allowed_distance = INVALID_NUM, allow_skip = True, reached = False, counter_seen_reachable = 0\<rparr>"

definition navigateWaypoints ::
  "environment \<Rightarrow> TWaypoint list \<Rightarrow> 'a waypoints_navigator_scheme \<Rightarrow> bool \<times> 'a waypoints_navigator_scheme" where
  \<comment> \<open>The first component tells whether an assertion failed: on an empty list, before
      anything is copied; on a waypoint that is not valid, after the waypoints before it were
      copied into the resized vector.\<close>
  "navigateWaypoints env nav_request st =
     (let wps = TWaypointStatusSequence_init\<lparr>timestamp_nav_started := env_now env\<rparr>;
          n = length nav_request;
          k = length (takeWhile isValid nav_request)
      in if n = 0 then (True, st\<lparr>m_waypoint_nav_status := wps\<rparr>)
         else if k < n
         then (True,
               st\<lparr>m_waypoint_nav_status :=
                    wps\<lparr>waypoints := map status_of_waypoint (take k nav_request)
                                         @ replicate (n - k) TWaypointStatus_init\<rparr>\<rparr>)
         else (False,
               st\<lparr>m_waypoint_nav_status :=
                    wps\<lparr>waypoints := map status_of_waypoint nav_request,
                        waypoint_index_current_goal := - 1\<rparr>\<rparr>))"

definition CWaypointsNavigator_cancel :: "'a waypoints_navigator_scheme \<Rightarrow> 'a waypoints_navigator_scheme" where
  "CWaypointsNavigator_cancel st = cancel (st\<lparr>m_waypoint_nav_status := TWaypointStatusSequence_init\<rparr>)"

definition reach_current_goal ::
  "TPoint2D \<Rightarrow> TPoint2D \<Rightarrow> 'a waypoints_navigator_scheme \<Rightarrow> 'a waypoints_navigator_scheme" where
  \<comment> \<open>Step 1, "default policy: go thru WPs one by one". The current goal index is below the
      number of waypoints whenever it is not negative.\<close>
  "reach_current_goal point1 point2 st =
     (let wps = m_waypoint_nav_status st; i = waypoint_index_current_goal wps
      in if i \<ge> 0
         then (let wp = waypoints wps ! nat i;
                   dist2target = segment_distance point1 point2 (wp_target wp)
               in if dist2target < allowed_distance wp \<or> m_lastNavTargetReached st
                  then (let wps1 = wps\<lparr>waypoints := (waypoints wps)[nat i := wp\<lparr>reached := True\<rparr>]\<rparr>;
                            st1 = robot (SendWaypointReachedEvent i) (st\<lparr>m_waypoint_nav_status := wps1\<rparr>)
                        in if i < int (length (waypoints wps1) - 1)
                           then st1\<lparr>m_waypoint_nav_status := wps1\<lparr>waypoint_index_current_goal := i + 1\<rparr>\<rparr>
                           else st1\<lparr>m_waypoint_nav_status := wps1\<lparr>final_goal_reached := True\<rparr>\<rparr>)
                  else st)
         else st)"

function scan_waypoints ::
  "TWaypointsNavigatorParams \<Rightarrow> (TPoint2D \<Rightarrow> bool) \<Rightarrow> TPose2D \<Rightarrow> int \<Rightarrow> int \<Rightarrow>
     TWaypointStatus list \<Rightarrow> int \<times> TWaypointStatus list" where
  \<comment> \<open>The \<open>for\<close> loop of step 2 from \<open>idx\<close> on; the result is \<open>most_advanced_wp\<close> and the
      waypoints with their counters.\<close>
  "scan_waypoints P reachable robot_pose idx most_advanced_wp wps =
     (if idx < int (length wps)
      then (if idx < 0 then scan_waypoints P reachable robot_pose (idx + 1) most_advanced_wp wps
            else (let wp_local_wrt_robot = inverseComposePoint robot_pose (wp_target (wps ! nat idx))
                  in if max_distance_to_allow_skip_waypoint P > 0 \<and>
                        norm_pt wp_local_wrt_robot > max_distance_to_allow_skip_waypoint P
                     then scan_waypoints P reachable robot_pose (idx + 1) most_advanced_wp wps
                     else (let is_reachable = reachable wp_local_wrt_robot;
                               wps' = (if is_reachable
                                       then wps[nat idx := (wps ! nat idx)
                                              \<lparr>counter_seen_reachable := counter_seen_reachable (wps ! nat idx) + 1\<rparr>]
                                       else wps);
                               most' = (if is_reachable \<and>
                                           counter_seen_reachable (wps' ! nat idx)
                                             > min_timesteps_confirm_skip_waypoints P
                                        then idx else most_advanced_wp)
                           in if \<not> allow_skip (wps' ! nat idx) then (most', wps')
                              else scan_waypoints P reachable robot_pose (idx + 1) most' wps')))
      else (most_advanced_wp, wps))"
  by pat_completeness auto
termination
  by (relation "measure (\<lambda>(P, reachable, robot_pose, idx, most, wps). nat (int (length wps) - idx))") auto

function mark_skipped :: "int \<Rightarrow> int \<Rightarrow> 'a waypoints_navigator_scheme \<Rightarrow> 'a waypoints_navigator_scheme" where
  \<comment> \<open>The loop \<open>for (k = most_advanced_wp_at_begin; k < most_advanced_wp; k++)\<close>.\<close>
  "mark_skipped k most_advanced_wp st =
     (if k < most_advanced_wp
      then (let wps = m_waypoint_nav_status st;
                wps1 = wps\<lparr>waypoints := (waypoints wps)[nat k := (waypoints wps ! nat k)\<lparr>reached := True\<rparr>]\<rparr>
            in mark_skipped (k + 1) most_advanced_wp
                 (robot (SendWaypointReachedEvent k) (st\<lparr>m_waypoint_nav_status := wps1\<rparr>)))
      else st)"
  by pat_completeness auto
termination
  by (relation "measure (\<lambda>(k, most, st). nat (most - k))") auto

definition skip_look_ahead ::
  "environment \<Rightarrow> 'a waypoints_navigator_scheme \<Rightarrow> 'a waypoints_navigator_scheme" where
  \<comment> \<open>Step 2, "if we can skip current one".\<close>
  "skip_look_ahead env st =
     (let wps = m_waypoint_nav_status st
      in if \<not> final_goal_reached wps \<and> waypoint_index_current_goal wps \<ge> 0
         then (let robot_pose = pose (m_curPoseVel st);
                   most_advanced_wp_at_begin = waypoint_index_current_goal wps;
                   (most_advanced_wp, ws) =
                      scan_waypoints (params_waypoints_navigator st) (env_reachable env) robot_pose
                        (waypoint_index_current_goal wps) most_advanced_wp_at_begin (waypoints wps);
                   st1 = st\<lparr>m_waypoint_nav_status := wps\<lparr>waypoints := ws\<rparr>\<rparr>
               in if most_advanced_wp \<ge> 0
                  then mark_skipped most_advanced_wp_at_begin most_advanced_wp
                         (st1\<lparr>m_waypoint_nav_status :=
                               (m_waypoint_nav_status st1)\<lparr>waypoint_index_current_goal := most_advanced_wp\<rparr>\<rparr>)
                  else st1)
         else st)"

definition request_navigation ::
  "environment \<Rightarrow> int \<Rightarrow> 'a waypoints_navigator_scheme \<Rightarrow> bool \<times> 'a waypoints_navigator_scheme" where
  \<comment> \<open>Step 3, "only if the temporary goal changed". The first component tells whether the
      assertion on the index failed.\<close>
  "request_navigation env prev_wp_index st =
     (let wps = m_waypoint_nav_status st; i = waypoint_index_current_goal wps
      in if i \<ge> 0 \<and> prev_wp_index \<noteq> i
         then (if \<not> i < int (length (waypoints wps)) then (True, st)
               else (let wp = waypoints wps ! nat i;
                         is_final_wp = (i + 1 = int (length (waypoints wps)));
                         nav_cmd = \<lparr>target = \<lparr>pose_x = pt_x (wp_target wp), pose_y = pt_y (wp_target wp),
                                              pose_phi = (if target_heading wp \<noteq> INVALID_NUM
                                                          then target_heading wp else 0)\<rparr>,
                                    targetAllowedDistance = allowed_distance wp,
                                    targetIsRelative = False,
                                    targetIsIntermediaryWaypoint = (\<not> is_final_wp)\<rparr>
                     in navigate env nav_cmd (robot (SendNewWaypointTargetEvent i) st)))
         else (False, st))"

definition waypoints_step ::
  "environment \<Rightarrow> 'a waypoints_navigator_scheme \<Rightarrow> bool \<times> 'a waypoints_navigator_scheme" where
  \<comment> \<open>The block "Waypoint navigation algorithm" of \<open>CWaypointsNavigator::navigationStep\<close>.\<close>
  "waypoints_step env st0 =
     (if waypoints (m_waypoint_nav_status st0) = [] \<or> final_goal_reached (m_waypoint_nav_status st0)
      then (False, st0)
      else (let (raised, st) = updateCurrentPoseAndSpeeds env st0
            in if raised then (True, st)
               else (let wps = m_waypoint_nav_status st;
                         prev_wp_index = waypoint_index_current_goal wps;
                         point1 = \<lparr>pt_x = pose_x (pose (m_curPoseVel st)), pt_y = pose_y (pose (m_curPoseVel st))\<rparr>;
                         point2 = (if pose_x (last_robot_pose wps) = INVALID_NUM then point1
                                   else \<lparr>pt_x = pose_x (last_robot_pose wps), pt_y = pose_y (last_robot_pose wps)\<rparr>);
                         st1 = st\<lparr>m_waypoint_nav_status := wps\<lparr>last_robot_pose := pose (m_curPoseVel st)\<rparr>\<rparr>;
                         st2 = skip_look_ahead env (reach_current_goal point1 point2 st1);
                         st3 = (if waypoint_index_current_goal (m_waypoint_nav_status st2) < 0
                                then st2\<lparr>m_waypoint_nav_status :=
                                           (m_waypoint_nav_status st2)\<lparr>waypoint_index_current_goal := 0\<rparr>\<rparr>
                                else st2)
                     in request_navigation env prev_wp_index st3)))"

definition CWaypointsNavigator_navigationStep ::
  "environment \<Rightarrow> 'a waypoints_navigator_scheme \<Rightarrow> bool \<times> 'a waypoints_navigator_scheme" where
  \<comment> \<open>The waypoint block, then the step of the base class; an exception of the waypoint block
      leaves the call before the base step. The first component tells whether one did.\<close>
  "CWaypointsNavigator_navigationStep env st =
     (let (raised, st1) = waypoints_step env st
      in if raised then (True, st1) else (False, navigationStep env st1))"

fun waypoint_ticks :: "environment list \<Rightarrow> 'a waypoints_navigator_scheme \<Rightarrow> 'a waypoints_navigator_scheme" where
  \<comment> \<open>Periodic calls of \<open>navigationStep()\<close>, one per environment.\<close>
  "waypoint_ticks [] st = st"
| "waypoint_ticks (env # envs) st = waypoint_ticks envs (snd (CWaypointsNavigator_navigationStep env st))"

section \<open>The reactive pipeline (CAbstractPTGBasedReactive)\<close>

record CParameterizedTrajectoryGenerator =
  \<comment> \<open>Modelled from the spec: the PTG contract (spec section 6), the part the three functions
      below call; the class is declared outside the sources at hand. \<open>inverseMap_WS2TP x y\<close>
      gives \<open>(is_into_domain, k, d)\<close>, the outputs are \<open>int\<close> and \<open>double\<close> as in the calls.\<close>
  supportVelCmdNOP :: bool
  maxTimeInVelCmdNOP :: "int \<Rightarrow> real"
  getPathCount :: nat
  inverseMap_WS2TP :: "real \<Rightarrow> real \<Rightarrow> bool \<times> int \<times> real"
  alpha2index :: "real \<Rightarrow> nat"

datatype exception = AssertionFailed | IndexOutOfRange

definition getPTG :: "CParameterizedTrajectoryGenerator list \<Rightarrow> int \<Rightarrow> exception + CParameterizedTrajectoryGenerator" where
  \<comment> \<open>Modelled from the spec: the PTGs are the "N configured PTGs" (spec section 4.4);
      \<open>getPTG(i)\<close> is abstract in this class, an index outside \<open>0..N-1\<close> throws.\<close>
  "getPTG ptgs i = (if 0 \<le> i \<and> i < int (length ptgs) then Inr (ptgs ! nat i) else Inl AssertionFailed)"

subsection \<open>The safety scaling of build_movement_candidate\<close>

record TAbstractPTGNavigatorParams =
  secure_distance_start :: real
  secure_distance_end :: real

definition obsFreeNormalizedDistance ::
  "CParameterizedTrajectoryGenerator \<Rightarrow> TTwist2D \<Rightarrow> real list \<Rightarrow> real \<Rightarrow> exception + real" where
  \<comment> \<open>From \<open>const int kDirection = ...\<close> to the end of \<open>if (ptg->supportVelCmdNOP())\<close>: the
      distance that enters the ramp, for the PTG, the body-frame velocity \<open>m_curPoseVel.velLocal\<close>,
      the normalised TP-obstacles and the direction chosen by the holonomic method. Reading
      \<open>TP_Obstacles[kDirection]\<close> past the end is undefined in the source, an error here.\<close>
  "obsFreeNormalizedDistance ptg velLocal_now tp_obstacles direction =
     (let kDirection = int (alpha2index ptg direction)
      in if \<not> kDirection < int (length tp_obstacles) then Inl IndexOutOfRange
         else (let obs = tp_obstacles ! nat kDirection
               in if supportVelCmdNOP ptg
                  then (let v = hypot (vx velLocal_now) (vy velLocal_now);
                            d = v * maxTimeInVelCmdNOP ptg kDirection
                        in Inr (min obs (max 0.90 (obs - d))))
                  else Inr obs))"

definition velScale :: "TAbstractPTGNavigatorParams \<Rightarrow> real \<Rightarrow> exception + real" where
  \<comment> \<open>The ramp, after its assertion \<open>secure_distance_end > secure_distance_start\<close>.\<close>
  "velScale P free =
     (if \<not> secure_distance_end P > secure_distance_start P then Inl AssertionFailed
      else if free < secure_distance_end P
      then (if free \<le> secure_distance_start P then Inr 0
            else Inr ((free - secure_distance_start P) / (secure_distance_end P - secure_distance_start P)))
      else Inr 1)"

definition scaled_speed ::
  "TAbstractPTGNavigatorParams \<Rightarrow> CParameterizedTrajectoryGenerator \<Rightarrow> TTwist2D \<Rightarrow> real list \<Rightarrow>
     real \<Rightarrow> real \<Rightarrow> exception + real" where
  \<comment> \<open>\<open>cm.speed *= velScale\<close> for the direction and the speed of the holonomic method.\<close>
  "scaled_speed P ptg velLocal_now tp_obstacles direction speed =
     (case obsFreeNormalizedDistance ptg velLocal_now tp_obstacles direction of
        Inl e \<Rightarrow> Inl e
      | Inr free \<Rightarrow> (case velScale P free of Inl e \<Rightarrow> Inl e | Inr sc \<Rightarrow> Inr (speed * sc)))"

subsection \<open>The NOP round of performNavigationStep\<close>

record TSentVelCmd =
  ptg_index :: int
  ptg_alpha_index :: int
  tp_target_k :: int
  colfreedist_move_k :: real
  speed_scale :: real
  poseVel :: TRobotPoseVel
  tim_send_cmd_vel :: TTimeStamp

definition TSentVelCmd_reset :: TSentVelCmd where
  "TSentVelCmd_reset =
     \<lparr>ptg_index = - 1, ptg_alpha_index = - 1, tp_target_k = - 1, colfreedist_move_k = 0,
      speed_scale = 1, poseVel = TRobotPoseVel_init, tim_send_cmd_vel = INVALID_TIMESTAMP\<rparr>"

definition TSentVelCmd_isValid :: "TSentVelCmd \<Rightarrow> bool" where
  "TSentVelCmd_isValid c = (timestamp (poseVel c) \<noteq> INVALID_TIMESTAMP)"

definition can_do_nop_motion ::
  "CParameterizedTrajectoryGenerator list \<Rightarrow> TSentVelCmd \<Rightarrow> bool \<Rightarrow> TTimeStamp \<Rightarrow> exception + bool" where
  \<comment> \<open>The conjunction, evaluated from left to right as \<open>&&\<close> does: \<open>getPTG\<close> is called only
      for a valid last command and an unchanged target.\<close>
  "can_do_nop_motion ptgs m_lastSentVelCmd target_changed_since_last_iteration tim_start_iteration =
     (if \<not> TSentVelCmd_isValid m_lastSentVelCmd then Inr False
      else if target_changed_since_last_iteration then Inr False
      else (case getPTG ptgs (ptg_index m_lastSentVelCmd) of
              Inl e \<Rightarrow> Inl e
            | Inr ptg \<Rightarrow>
                if \<not> supportVelCmdNOP ptg then Inr False
                else Inr (timeDifference (tim_send_cmd_vel m_lastSentVelCmd) tim_start_iteration
                            < maxTimeInVelCmdNOP ptg (ptg_alpha_index m_lastSentVelCmd))))"

datatype nop_candidate =
    NOP_not_considered
  | NOP_inviable
  | NOP_evaluated
  | NOP_exception exception

definition nop_round ::
  "CParameterizedTrajectoryGenerator list \<Rightarrow> TSentVelCmd \<Rightarrow> TPose2D \<Rightarrow> TPose2D \<Rightarrow> TTimeStamp \<Rightarrow>
     real \<Rightarrow> (TTimeStamp \<Rightarrow> TPose2D option) \<Rightarrow> nop_candidate" where
  \<comment> \<open>"Round #2: evaluate dont sending any new velocity command". What happens to the
      candidate of index N: left as it is; marked inviable (\<open>speed = -0.01\<close>, "can't
      interpolate pose, hence can't evaluate NOP"); or evaluated by \<open>build_movement_candidate\<close>.
      \<open>interpolate\<close> is \<open>m_latestPoses.interpolate\<close>, with \<open>None\<close> for \<open>valid_pose = false\<close>; the
      pose interpolator is outside the sources at hand.\<close>
  "nop_round ptgs m_lastSentVelCmd nav_target m_lastTarget tim_start_iteration tim_changeSpeed_avr
       interpolate =
     (let target_changed_since_last_iteration = (nav_target \<noteq> m_lastTarget)
      in case can_do_nop_motion ptgs m_lastSentVelCmd target_changed_since_last_iteration
                tim_start_iteration of
           Inl e \<Rightarrow> NOP_exception e
         | Inr False \<Rightarrow> NOP_not_considered
         | Inr True \<Rightarrow>
             (let tim_send_cmd_vel_corrected = tim_send_cmd_vel m_lastSentVelCmd + tim_changeSpeed_avr
              in case interpolate tim_send_cmd_vel_corrected of
                   None \<Rightarrow> NOP_inviable
                 | Some robot_pose_at_send_cmd \<Rightarrow> NOP_evaluated))"

subsection \<open>The reachability query\<close>

record TInfoPerPTG =
  valid_TP :: bool
  target_k :: int
  target_dist :: real
  TP_Obstacles :: "real list"

function reachable_from ::
  "CParameterizedTrajectoryGenerator list \<Rightarrow> TInfoPerPTG list \<Rightarrow> TPoint2D \<Rightarrow> nat \<Rightarrow> exception + bool" where
  \<comment> \<open>The loop \<open>for (size_t i=0;i<N;i++)\<close> from \<open>i\<close> on; it runs after the test
      \<open>m_infoPerPTG.size() < N\<close>, so \<open>m_infoPerPTG[i]\<close> exists. A negative \<open>wp_k\<close> passes the
      assertion and reads \<open>tp_obs[wp_k]\<close> out of range, which is undefined in the source and
      an error here.\<close>
  "reachable_from ptgs m_infoPerPTG wp i =
     (if i < length ptgs
      then (let ptg = ptgs ! i; tp_obs = TP_Obstacles (m_infoPerPTG ! i)
            in if length tp_obs \<noteq> getPathCount ptg then reachable_from ptgs m_infoPerPTG wp (i + 1)
               else (case inverseMap_WS2TP ptg (pt_x wp) (pt_y wp) of
                       (is_into_domain, wp_k, wp_norm_d) \<Rightarrow>
                         if \<not> is_into_domain then reachable_from ptgs m_infoPerPTG wp (i + 1)
                         else if \<not> wp_k < int (length tp_obs) then Inl AssertionFailed
                         else if wp_k < 0 then Inl IndexOutOfRange
                         else if tp_obs ! nat wp_k > 1.01 * wp_norm_d then Inr True
                         else reachable_from ptgs m_infoPerPTG wp (i + 1)))
      else Inr False)"
  by pat_completeness auto
termination
  by (relation "measure (\<lambda>(ptgs, infos, wp, i). length ptgs - i)") auto

definition impl_waypoint_is_reachable ::
  "CParameterizedTrajectoryGenerator list \<Rightarrow> TInfoPerPTG list \<Rightarrow> TTimeStamp \<Rightarrow> TTimeStamp \<Rightarrow> TPoint2D \<Rightarrow>
     exception + bool" where
  \<comment> \<open>For the PTGs, \<open>m_infoPerPTG\<close>, \<open>m_infoPerPTG_timestamp\<close> and the current time.\<close>
  "impl_waypoint_is_reachable ptgs m_infoPerPTG m_infoPerPTG_timestamp now wp =
     (if length m_infoPerPTG < length ptgs \<or>
         m_infoPerPTG_timestamp = INVALID_TIMESTAMP \<or>
         timeDifference m_infoPerPTG_timestamp now > 0.5
      then Inr False
      else reachable_from ptgs m_infoPerPTG wp 0)"

definition spec_free_path ::
  "CParameterizedTrajectoryGenerator \<Rightarrow> TInfoPerPTG \<Rightarrow> TPoint2D \<Rightarrow> bool" where
  \<comment> \<open>Following the spec (section 4.4.7), for one PTG: its "inverse-map places wp inside its
      domain at direction-index k and normalised distance d, and \<open>TP_obstacles[k] > 1.01 d\<close>",
      where \<open>TP_obstacles[k]\<close> is entry \<open>k\<close> of the TP-obstacles computed for that PTG.\<close>
  "spec_free_path ptg ipf wp =
     (case inverseMap_WS2TP ptg (pt_x wp) (pt_y wp) of
        (is_into_domain, k, d) \<Rightarrow>
          is_into_domain \<and> 0 \<le> k \<and> k < int (length (TP_Obstacles ipf)) \<and>
          TP_Obstacles ipf ! nat k > 1.01 * d)"

definition spec_waypoint_is_reachable ::
  "CParameterizedTrajectoryGenerator list \<Rightarrow> TInfoPerPTG list \<Rightarrow> TTimeStamp \<Rightarrow> TTimeStamp \<Rightarrow> TPoint2D \<Rightarrow> bool" where
  \<comment> \<open>Following the spec (section 4.4.7): the per-PTG information was computed and is not
      older than 500 ms, and some PTG has a free path to \<open>wp\<close>.\<close>
  "spec_waypoint_is_reachable ptgs m_infoPerPTG m_infoPerPTG_timestamp now wp =
     (length ptgs \<le> length m_infoPerPTG \<and>
      m_infoPerPTG_timestamp \<noteq> INVALID_TIMESTAMP \<and>
      \<not> timeDifference m_infoPerPTG_timestamp now > 0.5 \<and>
      (\<exists>i < length ptgs. spec_free_path (ptgs ! i) (m_infoPerPTG ! i) wp))"

definition ptg_contract :: "CParameterizedTrajectoryGenerator \<Rightarrow> TPoint2D \<Rightarrow> bool" where
  \<comment> \<open>Modelled from the spec: the direction index that \<open>inverse_map\<close> gives for a point of the
      domain is one of the \<open>path_count\<close> directions of the PTG (spec section 6); the query asserts
      one half of it.\<close>
  "ptg_contract ptg wp =
     (case inverseMap_WS2TP ptg (pt_x wp) (pt_y wp) of
        (is_into_domain, k, d) \<Rightarrow> \<not> is_into_domain \<or> (0 \<le> k \<and> k < int (getPathCount ptg)))"

definition info_computed_or_empty :: "CParameterizedTrajectoryGenerator \<Rightarrow> TInfoPerPTG \<Rightarrow> bool" where
  \<comment> \<open>The TP-obstacles of a PTG as a tick leaves them: empty (the tick resets every entry of
      \<open>m_infoPerPTG\<close>, and a PTG whose target is out of its domain is not evaluated), or with
      one distance per direction, "TP-obstacle array of size \<open>path_count\<close>" (spec section 4.4.4).\<close>
  "info_computed_or_empty ptg ipf =
     (TP_Obstacles ipf = [] \<or> length (TP_Obstacles ipf) = getPathCount ptg)"

subsection \<open>Concrete inputs\<close>

definition env_at :: "real \<Rightarrow> real \<Rightarrow> real \<Rightarrow> environment" where
  \<comment> \<open>The robot stands still at \<open>(x, y)\<close> with heading 0; every clock reads \<open>t\<close>; the derived step
      sends a command; every point is reachable.\<close>
  "env_at x y t =
     \<lparr>env_robot_time = t,
      env_pose = Some (\<lparr>pose_x = x, pose_y = y, pose_phi = 0\<rparr>, \<lparr>vx = 0, vy = 0, omega = 0\<rparr>, t),
      env_now = t,
      env_perform = SentCommand,
      env_reachable = (\<lambda>_. True)\<rparr>"


definition target_at :: "real \<Rightarrow> real \<Rightarrow> bool \<Rightarrow> TNavigationParams" where
  "target_at x y intermediary =
     \<lparr>target = \<lparr>pose_x = x, pose_y = y, pose_phi = 0\<rparr>,
      targetAllowedDistance = 0.5,
      targetIsRelative = False,
      targetIsIntermediaryWaypoint = intermediary\<rparr>"

definition navigating_to :: "real \<Rightarrow> real \<Rightarrow> bool \<Rightarrow> navigator" where
  \<comment> \<open>A fresh navigator after \<open>navigate()\<close> at time 1.\<close>
  "navigating_to x y intermediary =
     apply_action (Navigate (env_at 0 0 1) (target_at x y intermediary)) (CAbstractNavigator 0 0)"

definition waypoint_at :: "real \<Rightarrow> real \<Rightarrow> bool \<Rightarrow> TWaypoint" where
  "waypoint_at x y skip =
     \<lparr>wp_target = \<lparr>pt_x = x, pt_y = y\<rparr>, target_heading = INVALID_NUM,
      allowed_distance = 0.5, allow_skip = skip\<rparr>"

definition sequencer :: "real \<Rightarrow> int \<Rightarrow> TWaypoint list \<Rightarrow> waypoints_navigator" where
  \<comment> \<open>A fresh waypoint navigator with the two parameters of the look-ahead, after
      \<open>navigateWaypoints()\<close> at time 0.\<close>
  "sequencer max_distance min_timesteps request =
     snd (navigateWaypoints (env_at 0 0 0) request
            ((CWaypointsNavigator 0 0)
               \<lparr>params_waypoints_navigator :=
                  \<lparr>max_distance_to_allow_skip_waypoint = max_distance,
                   min_timesteps_confirm_skip_waypoints = min_timesteps\<rparr>\<rparr>))"

definition skip_params :: TWaypointsNavigatorParams where
  "skip_params = \<lparr>max_distance_to_allow_skip_waypoint = - 1, min_timesteps_confirm_skip_waypoints = 2\<rparr>"

definition far_params :: TWaypointsNavigatorParams where
  "far_params = \<lparr>max_distance_to_allow_skip_waypoint = 10, min_timesteps_confirm_skip_waypoints = 1\<rparr>"

definition skip_scenario :: "bool \<Rightarrow> waypoints_navigator" where
  \<comment> \<open>The scenario "Waypoint skip" of the spec; the argument is the \<open>allow_skip\<close> flag of the
      final waypoint, which the scenario leaves open.\<close>
  "skip_scenario final_skip =
     sequencer (max_distance_to_allow_skip_waypoint skip_params)
       (min_timesteps_confirm_skip_waypoints skip_params)
       [waypoint_at 1 0 True, waypoint_at 2 0 True, waypoint_at 3 0 final_skip]"

definition far_waypoint_scenario :: waypoints_navigator where
  \<comment> \<open>A waypoint that must not be skipped lies 100 m away, beyond the look-ahead distance of
      10 m; the waypoint after it is near.\<close>
  "far_waypoint_scenario =
     sequencer (max_distance_to_allow_skip_waypoint far_params)
       (min_timesteps_confirm_skip_waypoints far_params)
       [waypoint_at 1 0 True, waypoint_at 100 0 False, waypoint_at 2 0 True]"

fun is_waypoint_reached :: "robot_call \<Rightarrow> bool" where
  "is_waypoint_reached (SendWaypointReachedEvent i) = True"
| "is_waypoint_reached _ = False"

definition waypoint_status :: "real \<Rightarrow> real \<Rightarrow> bool \<Rightarrow> bool \<Rightarrow> int \<Rightarrow> TWaypointStatus" where
  \<comment> \<open>The status of \<open>waypoint_at x y skip\<close> with its \<open>reached\<close> flag and its counter.\<close>
  "waypoint_status x y skip r c =
     \<lparr>wp_target = \<lparr>pt_x = x, pt_y = y\<rparr>, target_heading = INVALID_NUM,
      allowed_distance = 0.5, allow_skip = skip, reached = r, counter_seen_reachable = c\<rparr>"

definition first_tick_calls :: "robot_call list" where
  \<comment> \<open>The calls of the tick that starts a sequence at waypoint 0.\<close>
  "first_tick_calls =
     [GetNavigationTime, GetCurrentPoseAndSpeeds, SendNewWaypointTargetEvent 0, StartWatchdog 1000,
      SendNavigationStartEvent, GetNavigationTime, GetCurrentPoseAndSpeeds, ChangeSpeeds]"

definition quiet_tick_calls :: "robot_call list" where
  \<comment> \<open>The calls of a tick that keeps its goal.\<close>
  "quiet_tick_calls = [GetNavigationTime, GetCurrentPoseAndSpeeds, GetNavigationTime, ChangeSpeeds]"

definition skipping_tick_calls :: "robot_call list" where
  \<comment> \<open>The calls of a tick that skips from waypoint 0 to waypoint 2.\<close>
  "skipping_tick_calls =
     [GetNavigationTime, GetCurrentPoseAndSpeeds, SendWaypointReachedEvent 0, SendWaypointReachedEvent 1,
      SendNewWaypointTargetEvent 2, GetNavigationTime, ChangeSpeeds]"

definition sequencer_state ::
  "TWaypointsNavigatorParams \<Rightarrow> TNavigationParams \<Rightarrow> robot_call list \<Rightarrow> real list \<Rightarrow> real \<Rightarrow> real \<Rightarrow>
     TWaypointStatus list \<Rightarrow> int \<Rightarrow> waypoints_navigator" where
  \<comment> \<open>The navigator of a robot that stands at the origin while it follows a sequence: the
      current single target, the calls made so far, the times of the poses kept (the last one
      is the time of the last tick), the minimum distance of the stall alarm and its time, the
      waypoints and the index of the current goal.\<close>
  "sequencer_state P nav_target calls ts min_dist min_time wps idx =
     \<lparr>m_lastNavigationState = NAVIGATING, m_navigationEndEventSent = False,
      m_navigationState = NAVIGATING, m_navigationParams = Some nav_target,
      m_lastNavTargetReached = False, m_robot = calls,
      m_curPoseVel = \<lparr>pose = \<lparr>pose_x = 0, pose_y = 0, pose_phi = 0\<rparr>,
                       velGlobal = \<lparr>vx = 0, vy = 0, omega = 0\<rparr>,
                       velLocal = \<lparr>vx = 0, vy = 0, omega = 0\<rparr>, timestamp = last ts\<rparr>,
      m_last_curPoseVelUpdate_robot_time = last ts,
      m_latestPoses = map (\<lambda>t. (t, \<lparr>pose_x = 0, pose_y = 0, pose_phi = 0\<rparr>)) ts,
      m_badNavAlarm_minDistTarget = min_dist, m_badNavAlarm_lastMinDistTime = min_time,
      params_abstract_navigator = TAbstractNavigatorParams_init,
      m_waypoint_nav_status =
        \<lparr>waypoints = wps, timestamp_nav_started = 0, final_goal_reached = False,
         waypoint_index_current_goal = idx,
         last_robot_pose = \<lparr>pose_x = 0, pose_y = 0, pose_phi = 0\<rparr>\<rparr>,
      params_waypoints_navigator = P\<rparr>"

definition example_ptg :: CParameterizedTrajectoryGenerator where
  \<comment> \<open>A PTG of three directions that supports NOP for a quarter of a second and maps every
      point to direction 1 at half the reference distance.\<close>
  "example_ptg =
     \<lparr>supportVelCmdNOP = True, maxTimeInVelCmdNOP = (\<lambda>k. 1 / 4), getPathCount = 3,
      inverseMap_WS2TP = (\<lambda>x y. (True, 1, 1 / 2)), alpha2index = (\<lambda>alpha. 1)\<rparr>"

definition moving_forward :: TTwist2D where
  "moving_forward = \<lparr>vx = 1, vy = 0, omega = 0\<rparr>"

definition example_sent :: TSentVelCmd where
  \<comment> \<open>A command of PTG 0 in direction 1, sent at time 10.\<close>
  "example_sent =
     \<lparr>ptg_index = 0, ptg_alpha_index = 1, tp_target_k = 1, colfreedist_move_k = 1, speed_scale = 1,
      poseVel = TRobotPoseVel_init\<lparr>timestamp := 10\<rparr>, tim_send_cmd_vel = 10\<rparr>"

definition goal_pose :: TPose2D where
  "goal_pose = \<lparr>pose_x = 5, pose_y = 0, pose_phi = 0\<rparr>"

definition example_infos :: "TInfoPerPTG list" where
  "example_infos =
     [\<lparr>valid_TP = False, target_k = 0, target_dist = 0, TP_Obstacles = []\<rparr>,
      \<lparr>valid_TP = True, target_k = 1, target_dist = 1 / 2, TP_Obstacles = [1, 1, 1]\<rparr>]"

definition example_wp :: TPoint2D where
  "example_wp = \<lparr>pt_x = 1, pt_y = 0\<rparr>"

definition frozen_robot :: navigator where
  \<comment> \<open>A robot that stands at the origin, 10 m from its target, after its first tick at time 2.\<close>
  "frozen_robot = navigationStep (env_at 0 0 2) (navigating_to 10 0 False)"

section \<open>Properties of the state machine\<close>

subsection \<open>The calls and the fields of one tick\<close>

lemma update_calls:
  "updateCurrentPoseAndSpeeds env st = (False, st') \<Longrightarrow>
   \<exists>cs. m_robot st' = m_robot st @ cs \<and> set cs \<subseteq> {GetNavigationTime, GetCurrentPoseAndSpeeds}"
  by (auto simp: updateCurrentPoseAndSpeeds_def robot_def stop_def Let_def split: if_splits option.splits)

lemma start_calls:
  "\<exists>cs. m_robot (start_of_navigation st) = m_robot st @ cs \<and> set cs \<subseteq> {StartWatchdog 1000, SendNavigationStartEvent}"
  by (auto simp: start_of_navigation_def robot_def onStartNewNavigation_def Let_def)

lemma refresh_calls:
  assumes "\<not> fst (pose_refresh env st)"
  shows "\<exists>cs. m_robot (snd (pose_refresh env st)) = m_robot st @ cs \<and>
           set cs \<subseteq> {StartWatchdog 1000, SendNavigationStartEvent, GetNavigationTime, GetCurrentPoseAndSpeeds}"
proof -
  obtain cs1 where 1: "m_robot (start_of_navigation st) = m_robot st @ cs1"
      "set cs1 \<subseteq> {StartWatchdog 1000, SendNavigationStartEvent}"
    using start_calls by blast
  from assms have "updateCurrentPoseAndSpeeds env (start_of_navigation st) = (False, snd (pose_refresh env st))"
    by (simp add: pose_refresh_def prod_eq_iff)
  then obtain cs2 where 2: "m_robot (snd (pose_refresh env st)) = m_robot (start_of_navigation st) @ cs2"
      "set cs2 \<subseteq> {GetNavigationTime, GetCurrentPoseAndSpeeds}"
    using update_calls by blast
  have "m_robot (snd (pose_refresh env st)) = m_robot st @ (cs1 @ cs2)" using 1 2 by simp
  moreover have "set (cs1 @ cs2) \<subseteq> {StartWatchdog 1000, SendNavigationStartEvent, GetNavigationTime, GetCurrentPoseAndSpeeds}"
    using 1 2 by auto
  ultimately show ?thesis by blast
qed

lemma refresh_params: "m_navigationParams (snd (pose_refresh env st)) = m_navigationParams st"
  by (simp add: pose_refresh_def updateCurrentPoseAndSpeeds_def start_of_navigation_def robot_def
      stop_def onStartNewNavigation_def Let_def split: option.splits)

lemma refresh_alarm_params:
  "params_abstract_navigator (snd (pose_refresh env st)) = params_abstract_navigator st"
  "m_badNavAlarm_minDistTarget (snd (pose_refresh env st)) = m_badNavAlarm_minDistTarget st"
  "m_badNavAlarm_lastMinDistTime (snd (pose_refresh env st)) = m_badNavAlarm_lastMinDistTime st"
  by (simp_all add: pose_refresh_def updateCurrentPoseAndSpeeds_def start_of_navigation_def robot_def
      stop_def onStartNewNavigation_def Let_def split: option.splits)

lemma step_navigating:
  assumes "m_navigationState st = NAVIGATING"
    and "\<not> fst (pose_refresh env st)"
    and "m_latestPoses (snd (pose_refresh env st)) \<noteq> []"
    and "m_navigationParams st = Some p"
  shows "navigationStep env st =
           (arrival_and_alarm env p (targetDist (snd (pose_refresh env st)) p) (snd (pose_refresh env st)))
             \<lparr>m_lastNavigationState := NAVIGATING\<rparr>"
proof -
  have "m_navigationParams (snd (pose_refresh env st)) = Some p"
    using assms(4) by (simp add: refresh_params)
  with assms(1-3) show ?thesis
    by (simp add: navigationStep_def case_NAVIGATING_def pose_refresh_def split_beta)
qed


text \<open>
  Claim C10. \<open>suspend()\<close> outside \<open>NAVIGATING\<close>, \<open>resume()\<close> outside \<open>SUSPENDED\<close> and
  \<open>resetNavError()\<close> outside \<open>NAV_ERROR\<close> return the navigator as it was: the state, every
  other field, and the trace of the calls on the robot interface (so no callback and no
  event is issued).
\<close>

theorem C10_guarded_calls_are_noops:
  "(m_navigationState st \<noteq> NAVIGATING \<longrightarrow> suspend st = st) \<and>
   (m_navigationState st \<noteq> SUSPENDED \<longrightarrow> resume st = st) \<and>
   (m_navigationState st \<noteq> NAV_ERROR \<longrightarrow> resetNavError st = st)"
  by (simp add: suspend_def resume_def resetNavError_def)

theorem C10_guarded_calls_are_noops_witness:
  "m_navigationState (CAbstractNavigator 0 0) \<noteq> NAVIGATING \<and>
   suspend (CAbstractNavigator 0 0) = CAbstractNavigator 0 0 \<and>
   m_navigationState (CAbstractNavigator 0 0) \<noteq> SUSPENDED \<and>
   resume (CAbstractNavigator 0 0) = CAbstractNavigator 0 0 \<and>
   m_navigationState (CAbstractNavigator 0 0) \<noteq> NAV_ERROR \<and>
   resetNavError (CAbstractNavigator 0 0) = CAbstractNavigator 0 0"
  using C10_guarded_calls_are_noops [of "CAbstractNavigator 0 0"]
  by (simp add: CAbstractNavigator_def)

subsection \<open>Arrival\<close>

lemma arrival_reached:
  assumes "d < targetAllowedDistance p"
  shows "m_lastNavTargetReached (arrival_and_alarm env p d st) \<and>
         m_navigationState (arrival_and_alarm env p d st) = IDLE \<and>
         (targetIsIntermediaryWaypoint p \<longrightarrow> m_robot (arrival_and_alarm env p d st) = m_robot st) \<and>
         (\<not> targetIsIntermediaryWaypoint p \<longrightarrow>
            (\<exists>pre post. m_robot (arrival_and_alarm env p d st) = m_robot st @ pre @ [Stop False] @ post))"
proof (cases "targetIsIntermediaryWaypoint p")
  case True
  with assms show ?thesis by (simp add: arrival_and_alarm_def Let_def)
next
  case False
  have flags: "m_lastNavTargetReached (arrival_and_alarm env p d st)"
    "m_navigationState (arrival_and_alarm env p d st) = IDLE"
    using assms False by (simp_all add: arrival_and_alarm_def Let_def robot_def stop_def)
  show ?thesis
  proof (cases "\<not> m_navigationEndEventSent st \<and> d < dist_to_target_for_sending_event (params_abstract_navigator st)")
    case True
    with assms False
    have "m_robot (arrival_and_alarm env p d st) = m_robot st @ [SendNavigationEndEvent] @ [Stop False] @ []"
      by (simp add: arrival_and_alarm_def Let_def robot_def stop_def)
    with flags False show ?thesis by blast
  next
    case nosent: False
    show ?thesis
    proof (cases "m_navigationEndEventSent st")
      case True
      with assms False
      have "m_robot (arrival_and_alarm env p d st) = m_robot st @ [] @ [Stop False] @ []"
        by (simp add: arrival_and_alarm_def Let_def robot_def stop_def)
      with flags False show ?thesis by blast
    next
      case notyet: False
      with assms False nosent
      have "m_robot (arrival_and_alarm env p d st) = m_robot st @ [] @ [Stop False] @ [SendNavigationEndEvent]"
        by (simp add: arrival_and_alarm_def Let_def robot_def stop_def)
      with flags False show ?thesis by blast
    qed
  qed
qed

text \<open>
  Claim C1, as the code has it. In a tick of a navigating robot whose pose refresh
  succeeded, when the distance from the target to the segment of the last robot movement is
  below \<open>targetAllowedDistance\<close>, the target is marked reached and the state becomes \<open>IDLE\<close>,
  for a final target and for an intermediary waypoint alike. The robot is stopped
  (\<open>stop(false)\<close>) only when the target is not an intermediary waypoint; for an intermediary
  waypoint no stop of either kind is sent in the tick.
\<close>

theorem C1_arrival_goes_idle:
  assumes nav: "m_navigationState st = NAVIGATING"
    and par: "m_navigationParams st = Some p"
    and ok: "\<not> fst (pose_refresh env st)"
    and hist: "m_latestPoses (snd (pose_refresh env st)) \<noteq> []"
    and near: "targetDist (snd (pose_refresh env st)) p < targetAllowedDistance p"
  shows "m_lastNavTargetReached (navigationStep env st) \<and>
         m_navigationState (navigationStep env st) = IDLE \<and>
         (targetIsIntermediaryWaypoint p \<longrightarrow> (\<forall>b. Stop b \<notin> set (calls_of_step env st))) \<and>
         (\<not> targetIsIntermediaryWaypoint p \<longrightarrow> Stop False \<in> set (calls_of_step env st))"
proof -
  let ?st' = "snd (pose_refresh env st)"
  let ?d = "targetDist ?st' p"
  have step: "navigationStep env st = (arrival_and_alarm env p ?d ?st')\<lparr>m_lastNavigationState := NAVIGATING\<rparr>"
    using step_navigating [OF nav ok hist par] .
  obtain cs where cs: "m_robot ?st' = m_robot st @ cs"
    "set cs \<subseteq> {StartWatchdog 1000, SendNavigationStartEvent, GetNavigationTime, GetCurrentPoseAndSpeeds}"
    using refresh_calls [OF ok] by blast
  note arr = arrival_reached [OF near, of env ?st']
  have reached: "m_lastNavTargetReached (navigationStep env st)"
    and idle: "m_navigationState (navigationStep env st) = IDLE"
    using arr step by simp_all
  have interm: "\<forall>b. Stop b \<notin> set (calls_of_step env st)" if "targetIsIntermediaryWaypoint p"
  proof -
    from that arr have "m_robot (navigationStep env st) = m_robot st @ cs"
      using step cs by simp
    then have "calls_of_step env st = cs" by (simp add: calls_of_step_def)
    with cs(2) show ?thesis by auto
  qed
  have final: "Stop False \<in> set (calls_of_step env st)" if "\<not> targetIsIntermediaryWaypoint p"
  proof -
    from that arr obtain pre post where
      "m_robot (arrival_and_alarm env p ?d ?st') = m_robot ?st' @ pre @ [Stop False] @ post"
      by blast
    then have "m_robot (navigationStep env st) = m_robot st @ (cs @ pre @ [Stop False] @ post)"
      using step cs by simp
    then have "calls_of_step env st = cs @ pre @ [Stop False] @ post"
      by (simp add: calls_of_step_def)
    then show ?thesis by simp
  qed
  from reached idle interm final show ?thesis by blast
qed

subsection \<open>The first tick of a navigation, evaluated\<close>

lemma hypot_zero: "hypot 0 0 = 0"
  by (simp add: hypot_def)

lemma navigating_to_simp:
  "navigating_to x y i =
    (CAbstractNavigator 0 0)\<lparr>m_navigationEndEventSent := False, m_lastNavTargetReached := False,
       m_navigationParams := Some (target_at x y i), m_navigationState := NAVIGATING,
       m_badNavAlarm_minDistTarget := DBL_MAX, m_badNavAlarm_lastMinDistTime := 1\<rparr>"
  by (simp add: navigating_to_def navigate_def target_at_def env_at_def)

lemma refresh_first_tick:
  "pose_refresh (env_at x y t) (navigating_to a b i) =
     (False, (navigating_to a b i)
        \<lparr>m_robot := [StartWatchdog 1000, SendNavigationStartEvent, GetNavigationTime, GetCurrentPoseAndSpeeds],
         m_latestPoses := [(t, \<lparr>pose_x = x, pose_y = y, pose_phi = 0\<rparr>)],
         m_last_curPoseVelUpdate_robot_time := t,
         m_curPoseVel := \<lparr>pose = \<lparr>pose_x = x, pose_y = y, pose_phi = 0\<rparr>, velGlobal = \<lparr>vx = 0, vy = 0, omega = 0\<rparr>,
                            velLocal = \<lparr>vx = 0, vy = 0, omega = 0\<rparr>, timestamp = t\<rparr>\<rparr>)"
  by (simp add: pose_refresh_def navigating_to_simp CAbstractNavigator_def start_of_navigation_def
      onStartNewNavigation_def robot_def updateCurrentPoseAndSpeeds_def env_at_def rotate_def Let_def)

lemma targetDist_first_tick:
  "targetDist (snd (pose_refresh (env_at x y t) (navigating_to a b i))) (target_at a b i) = hypot (a - x) (b - y)"
  by (simp add: refresh_first_tick targetDist_def seg_robot_mov_def point_of_pose_def
      segment_distance_def point_distance_def target_at_def)

text \<open>
  The claim C1 as it was stated ("for an intermediary waypoint the state remains
  \<open>NAVIGATING\<close>") fails: a robot standing on the intermediary waypoint (1, 0) leaves
  \<open>NAVIGATING\<close> in the tick.
\<close>

theorem C1_intermediary_counterexample:
  "m_navigationState (navigating_to 1 0 True) = NAVIGATING \<and>
   m_navigationParams (navigating_to 1 0 True) = Some (target_at 1 0 True) \<and>
   targetIsIntermediaryWaypoint (target_at 1 0 True) \<and>
   targetDist (snd (pose_refresh (env_at 1 0 2) (navigating_to 1 0 True))) (target_at 1 0 True)
     < targetAllowedDistance (target_at 1 0 True) \<and>
   m_navigationState (navigationStep (env_at 1 0 2) (navigating_to 1 0 True)) \<noteq> NAVIGATING"
proof -
  have d: "targetDist (snd (pose_refresh (env_at 1 0 2) (navigating_to 1 0 True))) (target_at 1 0 True) = 0"
    by (simp add: targetDist_first_tick hypot_zero)
  have "navigationStep (env_at 1 0 2) (navigating_to 1 0 True) =
        (arrival_and_alarm (env_at 1 0 2) (target_at 1 0 True) 0
           (snd (pose_refresh (env_at 1 0 2) (navigating_to 1 0 True))))\<lparr>m_lastNavigationState := NAVIGATING\<rparr>"
    using step_navigating [of "navigating_to 1 0 True" "env_at 1 0 2" "target_at 1 0 True"] d
    by (simp add: refresh_first_tick) (simp add: navigating_to_simp)
  then have "m_navigationState (navigationStep (env_at 1 0 2) (navigating_to 1 0 True)) = IDLE"
    by (simp add: arrival_and_alarm_def target_at_def Let_def)
  with d show ?thesis by (simp add: navigating_to_simp target_at_def)
qed

text \<open>The hypotheses of C1 hold for a robot standing on the final target (1, 0).\<close>

theorem C1_arrival_goes_idle_witness:
  "m_navigationState (navigating_to 1 0 False) = NAVIGATING \<and>
   m_navigationParams (navigating_to 1 0 False) = Some (target_at 1 0 False) \<and>
   \<not> fst (pose_refresh (env_at 1 0 2) (navigating_to 1 0 False)) \<and>
   m_latestPoses (snd (pose_refresh (env_at 1 0 2) (navigating_to 1 0 False))) \<noteq> [] \<and>
   targetDist (snd (pose_refresh (env_at 1 0 2) (navigating_to 1 0 False))) (target_at 1 0 False)
     < targetAllowedDistance (target_at 1 0 False) \<and>
   m_lastNavTargetReached (navigationStep (env_at 1 0 2) (navigating_to 1 0 False)) \<and>
   m_navigationState (navigationStep (env_at 1 0 2) (navigating_to 1 0 False)) = IDLE \<and>
   Stop False \<in> set (calls_of_step (env_at 1 0 2) (navigating_to 1 0 False))"
proof -
  have nav: "m_navigationState (navigating_to 1 0 False) = NAVIGATING"
    and par: "m_navigationParams (navigating_to 1 0 False) = Some (target_at 1 0 False)"
    by (simp_all add: navigating_to_simp)
  have ok: "\<not> fst (pose_refresh (env_at 1 0 2) (navigating_to 1 0 False))"
    and hist: "m_latestPoses (snd (pose_refresh (env_at 1 0 2) (navigating_to 1 0 False))) \<noteq> []"
    by (simp_all add: refresh_first_tick)
  have near: "targetDist (snd (pose_refresh (env_at 1 0 2) (navigating_to 1 0 False))) (target_at 1 0 False)
                < targetAllowedDistance (target_at 1 0 False)"
    by (simp add: targetDist_first_tick hypot_zero) (simp add: target_at_def)
  have fin: "\<not> targetIsIntermediaryWaypoint (target_at 1 0 False)"
    by (simp add: target_at_def)
  show ?thesis
    using C1_arrival_goes_idle [OF nav par ok hist near] nav par ok hist near fin by blast
qed

subsection \<open>The navigation-end event\<close>

lemma perform_keeps:
  "m_navigationParams (performNavigationStep env st) = m_navigationParams st"
  "count_list (m_robot (performNavigationStep env st)) SendNavigationEndEvent
     = count_list (m_robot st) SendNavigationEndEvent"
  by (simp_all add: performNavigationStep_def doEmergencyStop_def stop_def robot_def
      split: perform_outcome.splits)

lemma arrival_keeps:
  assumes "targetIsIntermediaryWaypoint p"
  shows "m_navigationParams (arrival_and_alarm env p d st) = m_navigationParams st"
    and "count_list (m_robot (arrival_and_alarm env p d st)) SendNavigationEndEvent
           = count_list (m_robot st) SendNavigationEndEvent"
  using assms by (simp_all add: arrival_and_alarm_def Let_def perform_keeps robot_def)

lemma update_keeps:
  "m_navigationParams (snd (updateCurrentPoseAndSpeeds env st)) = m_navigationParams st"
  "count_list (m_robot (snd (updateCurrentPoseAndSpeeds env st))) SendNavigationEndEvent
     = count_list (m_robot st) SendNavigationEndEvent"
  by (simp_all add: updateCurrentPoseAndSpeeds_def Let_def robot_def stop_def split: option.splits)

lemma start_keeps:
  "m_navigationParams (start_of_navigation st) = m_navigationParams st"
  "count_list (m_robot (start_of_navigation st)) SendNavigationEndEvent
     = count_list (m_robot st) SendNavigationEndEvent"
  by (simp_all add: start_of_navigation_def Let_def robot_def onStartNewNavigation_def)


lemma case_NAVIGATING_keeps:
  assumes "intermediary_only st"
  shows "m_navigationParams (case_NAVIGATING env st) = m_navigationParams st"
    and "count_list (m_robot (case_NAVIGATING env st)) SendNavigationEndEvent
           = count_list (m_robot st) SendNavigationEndEvent"
proof -
  let ?u = "updateCurrentPoseAndSpeeds env (start_of_navigation st)"
  have par: "m_navigationParams (snd ?u) = m_navigationParams st"
    by (simp add: update_keeps start_keeps)
  have cnt: "count_list (m_robot (snd ?u)) SendNavigationEndEvent
               = count_list (m_robot st) SendNavigationEndEvent"
    by (simp add: update_keeps start_keeps)
  show "m_navigationParams (case_NAVIGATING env st) = m_navigationParams st"
  proof (cases "m_navigationParams st")
    case None
    with par show ?thesis by (simp add: case_NAVIGATING_def split_beta)
  next
    case (Some p)
    with assms have "targetIsIntermediaryWaypoint p" by (simp add: intermediary_only_def)
    with Some par show ?thesis by (simp add: case_NAVIGATING_def split_beta arrival_keeps)
  qed
  show "count_list (m_robot (case_NAVIGATING env st)) SendNavigationEndEvent
           = count_list (m_robot st) SendNavigationEndEvent"
  proof (cases "m_navigationParams st")
    case None
    with par cnt show ?thesis by (simp add: case_NAVIGATING_def split_beta)
  next
    case (Some p)
    with assms have "targetIsIntermediaryWaypoint p" by (simp add: intermediary_only_def)
    with Some par cnt show ?thesis by (simp add: case_NAVIGATING_def split_beta arrival_keeps)
  qed
qed

lemma navigationStep_keeps:
  assumes "intermediary_only st"
  shows "m_navigationParams (navigationStep env st) = m_navigationParams st"
    and "count_list (m_robot (navigationStep env st)) SendNavigationEndEvent
           = count_list (m_robot st) SendNavigationEndEvent"
proof -
  show "m_navigationParams (navigationStep env st) = m_navigationParams st"
    by (cases "m_navigationState st")
       (simp_all add: navigationStep_def case_NAVIGATING_keeps [OF assms] case_IDLE_SUSPENDED_def
          case_NAV_ERROR_def robot_def stop_def Let_def)
  show "count_list (m_robot (navigationStep env st)) SendNavigationEndEvent
           = count_list (m_robot st) SendNavigationEndEvent"
    by (cases "m_navigationState st")
       (simp_all add: navigationStep_def case_NAVIGATING_keeps [OF assms] case_IDLE_SUSPENDED_def
          case_NAV_ERROR_def robot_def stop_def Let_def)
qed

lemma navigate_keeps:
  assumes "targetIsIntermediaryWaypoint q"
  shows "intermediary_only (snd (navigate env q st))"
    and "count_list (m_robot (snd (navigate env q st))) SendNavigationEndEvent
           = count_list (m_robot st) SendNavigationEndEvent"
  using assms
  by (simp_all add: navigate_def intermediary_only_def Let_def split_beta update_keeps)


lemma apply_action_keeps:
  assumes "intermediary_only st"
    and "\<And>env q. a = Navigate env q \<Longrightarrow> targetIsIntermediaryWaypoint q"
  shows "intermediary_only (apply_action a st)"
    and "count_list (m_robot (apply_action a st)) SendNavigationEndEvent
           = count_list (m_robot st) SendNavigationEndEvent"
proof -
  show "intermediary_only (apply_action a st)"
  proof (cases a)
    case (Navigate env q)
    then show ?thesis using assms(2) by (simp add: navigate_keeps)
  next
    case (Tick env)
    then show ?thesis using assms(1) navigationStep_keeps(1) [OF assms(1), of env]
      by (simp add: intermediary_only_def)
  qed (use assms(1) in \<open>simp_all add: intermediary_only_def cancel_def suspend_def resume_def
         resetNavError_def stop_def robot_def\<close>)
  show "count_list (m_robot (apply_action a st)) SendNavigationEndEvent
           = count_list (m_robot st) SendNavigationEndEvent"
  proof (cases a)
    case (Navigate env q)
    then show ?thesis using assms(2) by (simp add: navigate_keeps)
  next
    case (Tick env)
    then show ?thesis using navigationStep_keeps(2) [OF assms(1), of env] by simp
  qed (simp_all add: cancel_def suspend_def resume_def resetNavError_def stop_def robot_def)
qed



text \<open>
  Claim C3. While the target of the navigation is an intermediary waypoint, no call of the
  public interface and no tick emits the navigation-end event: over any run of ticks,
  \<open>cancel\<close>, \<open>suspend\<close>, \<open>resume\<close>, \<open>resetNavError\<close> and of \<open>navigate\<close> calls towards
  intermediary waypoints, whatever the robot poses and so whatever the distances to the
  target, the number of \<open>sendNavigationEndEvent\<close> calls in the trace does not change.
\<close>

theorem C3_no_end_event_for_intermediary:
  assumes "intermediary_only st"
    and "\<forall>env q. Navigate env q \<in> set as \<longrightarrow> targetIsIntermediaryWaypoint q"
  shows "count_list (m_robot (run as st)) SendNavigationEndEvent
           = count_list (m_robot st) SendNavigationEndEvent"
  using assms
proof (induction as arbitrary: st)
  case Nil
  then show ?case by simp
next
  case (Cons a as)
  have a: "targetIsIntermediaryWaypoint q" if "a = Navigate env q" for env q
  proof -
    from that have "Navigate env q \<in> set (a # as)" by simp
    with Cons.prems(2) show ?thesis by blast
  qed
  have rest: "\<forall>env q. Navigate env q \<in> set as \<longrightarrow> targetIsIntermediaryWaypoint q"
  proof (intro allI impI)
    fix env q
    assume "Navigate env q \<in> set as"
    then have "Navigate env q \<in> set (a # as)" by simp
    with Cons.prems(2) show "targetIsIntermediaryWaypoint q" by blast
  qed
  have "intermediary_only (apply_action a st)"
    using apply_action_keeps(1) [OF Cons.prems(1) a] .
  then have "count_list (m_robot (run as (apply_action a st))) SendNavigationEndEvent
      = count_list (m_robot (apply_action a st)) SendNavigationEndEvent"
    using Cons.IH rest by blast
  also have "\<dots> = count_list (m_robot st) SendNavigationEndEvent"
    using apply_action_keeps(2) [OF Cons.prems(1) a] .
  finally show ?case by simp
qed

text \<open>
  A run for C3: the robot reaches the intermediary waypoint (1, 0), is sent to the next
  intermediary waypoint (2, 0) and reaches it.
\<close>

theorem C3_no_end_event_for_intermediary_witness:
  "intermediary_only (navigating_to 1 0 True) \<and>
   count_list (m_robot (navigating_to 1 0 True)) SendNavigationEndEvent = 0 \<and>
   count_list (m_robot (run [Tick (env_at 1 0 2), Navigate (env_at 1 0 3) (target_at 2 0 True),
                             Tick (env_at 2 0 4), Suspend, Resume, Tick (env_at 2 0 5)]
                          (navigating_to 1 0 True))) SendNavigationEndEvent = 0"
proof -
  have i: "intermediary_only (navigating_to 1 0 True)"
    by (simp add: intermediary_only_def navigating_to_simp target_at_def)
  have n: "\<forall>env q. Navigate env q \<in> set [Tick (env_at 1 0 2), Navigate (env_at 1 0 3) (target_at 2 0 True),
                             Tick (env_at 2 0 4), Suspend, Resume, Tick (env_at 2 0 5)]
             \<longrightarrow> targetIsIntermediaryWaypoint q"
  proof (intro allI impI)
    fix env q
    assume "Navigate env q \<in> set [Tick (env_at 1 0 2), Navigate (env_at 1 0 3) (target_at 2 0 True),
                             Tick (env_at 2 0 4), Suspend, Resume, Tick (env_at 2 0 5)]"
    then have "q = target_at 2 0 True" by simp
    then show "targetIsIntermediaryWaypoint q" by (simp add: target_at_def)
  qed
  have z: "count_list (m_robot (navigating_to 1 0 True)) SendNavigationEndEvent = 0"
    by (simp add: navigating_to_simp CAbstractNavigator_def)
  have "count_list (m_robot (run [Tick (env_at 1 0 2), Navigate (env_at 1 0 3) (target_at 2 0 True),
                             Tick (env_at 2 0 4), Suspend, Resume, Tick (env_at 2 0 5)]
                          (navigating_to 1 0 True))) SendNavigationEndEvent = 0"
    using C3_no_end_event_for_intermediary [OF i n] z by (simp only:)
  with i z show ?thesis by (intro conjI)
qed

subsection \<open>The stall alarm\<close>

lemma hypot_axis: "hypot a 0 = \<bar>a\<bar>"
  by (simp add: hypot_def)

lemma perform_alarm:
  "m_badNavAlarm_minDistTarget (performNavigationStep env st) = m_badNavAlarm_minDistTarget st"
  "m_badNavAlarm_lastMinDistTime (performNavigationStep env st) = m_badNavAlarm_lastMinDistTime st"
  by (simp_all add: performNavigationStep_def doEmergencyStop_def stop_def robot_def
      split: perform_outcome.splits)

lemma arrival_not_improved:
  assumes "\<not> d < targetAllowedDistance p" and "\<not> d < m_badNavAlarm_minDistTarget st"
  shows "m_badNavAlarm_minDistTarget (arrival_and_alarm env p d st) = m_badNavAlarm_minDistTarget st"
    and "m_badNavAlarm_lastMinDistTime (arrival_and_alarm env p d st) = m_badNavAlarm_lastMinDistTime st"
  using assms by (simp_all add: arrival_and_alarm_def Let_def robot_def perform_alarm)

lemma arrival_stall:
  assumes "\<not> d < targetAllowedDistance p"
  shows "(d < m_badNavAlarm_minDistTarget st \<longrightarrow>
            m_badNavAlarm_minDistTarget (arrival_and_alarm env p d st) = d \<and>
            m_badNavAlarm_lastMinDistTime (arrival_and_alarm env p d st) = env_now env)"
    and "\<not> d < m_badNavAlarm_minDistTarget st \<Longrightarrow>
         timeDifference (m_badNavAlarm_lastMinDistTime st) (env_now env)
           > alarm_seems_not_approaching_target_timeout (params_abstract_navigator st) \<Longrightarrow>
         m_navigationState (arrival_and_alarm env p d st) = NAV_ERROR \<and>
         (\<exists>pre. m_robot (arrival_and_alarm env p d st) = m_robot st @ pre @ [SendWaySeemsBlockedEvent] \<and>
                set pre \<subseteq> {SendNavigationEndEvent})"
proof -
  show "d < m_badNavAlarm_minDistTarget st \<longrightarrow>
            m_badNavAlarm_minDistTarget (arrival_and_alarm env p d st) = d \<and>
            m_badNavAlarm_lastMinDistTime (arrival_and_alarm env p d st) = env_now env"
    using assms
    by (simp add: arrival_and_alarm_def Let_def robot_def performNavigationStep_def doEmergencyStop_def
        stop_def split: perform_outcome.splits)
next
  assume far: "\<not> d < m_badNavAlarm_minDistTarget st"
    and late: "timeDifference (m_badNavAlarm_lastMinDistTime st) (env_now env)
           > alarm_seems_not_approaching_target_timeout (params_abstract_navigator st)"
  show "m_navigationState (arrival_and_alarm env p d st) = NAV_ERROR \<and>
         (\<exists>pre. m_robot (arrival_and_alarm env p d st) = m_robot st @ pre @ [SendWaySeemsBlockedEvent] \<and>
                set pre \<subseteq> {SendNavigationEndEvent})"
  proof (cases "\<not> targetIsIntermediaryWaypoint p \<and> \<not> m_navigationEndEventSent st \<and>
                   d < dist_to_target_for_sending_event (params_abstract_navigator st)")
    case True
    with assms far late
    have "m_navigationState (arrival_and_alarm env p d st) = NAV_ERROR"
      and "m_robot (arrival_and_alarm env p d st) = m_robot st @ [SendNavigationEndEvent] @ [SendWaySeemsBlockedEvent]"
      by (simp_all add: arrival_and_alarm_def Let_def robot_def)
    then show ?thesis by (metis empty_set list.simps(15) order_refl)
  next
    case False
    with assms far late
    have "m_navigationState (arrival_and_alarm env p d st) = NAV_ERROR"
      and "m_robot (arrival_and_alarm env p d st) = m_robot st @ [] @ [SendWaySeemsBlockedEvent]"
      by (simp_all add: arrival_and_alarm_def Let_def robot_def)
    then show ?thesis by (metis empty_set empty_subsetI)
  qed
qed


text \<open>
  Claim C9. In a tick of a navigating robot that reaches the stall check (the pose refresh
  succeeded and the target is not reached), the navigator keeps the minimum distance to the
  target and the time it was last improved: a smaller distance is stored with the current
  time, and otherwise both stay as they were. When the distance did not improve and the time since the last improvement exceeds
  \<open>alarm_seems_not_approaching_target_timeout\<close>, the tick emits the way-blocked event and
  the state becomes \<open>NAV_ERROR\<close>, and no stop, emergency or not, is sent in that tick. The
  default timeout is 30 seconds.
\<close>

theorem C9_stall_alarm:
  assumes nav: "m_navigationState st = NAVIGATING"
    and par: "m_navigationParams st = Some p"
    and ok: "\<not> fst (pose_refresh env st)"
    and hist: "m_latestPoses (snd (pose_refresh env st)) \<noteq> []"
    and far: "\<not> targetDist (snd (pose_refresh env st)) p < targetAllowedDistance p"
  shows "(targetDist (snd (pose_refresh env st)) p < m_badNavAlarm_minDistTarget st \<longrightarrow>
            m_badNavAlarm_minDistTarget (navigationStep env st) = targetDist (snd (pose_refresh env st)) p \<and>
            m_badNavAlarm_lastMinDistTime (navigationStep env st) = env_now env) \<and>
         (\<not> targetDist (snd (pose_refresh env st)) p < m_badNavAlarm_minDistTarget st \<longrightarrow>
            m_badNavAlarm_minDistTarget (navigationStep env st) = m_badNavAlarm_minDistTarget st \<and>
            m_badNavAlarm_lastMinDistTime (navigationStep env st) = m_badNavAlarm_lastMinDistTime st) \<and>
         (\<not> targetDist (snd (pose_refresh env st)) p < m_badNavAlarm_minDistTarget st \<and>
          timeDifference (m_badNavAlarm_lastMinDistTime st) (env_now env)
            > alarm_seems_not_approaching_target_timeout (params_abstract_navigator st) \<longrightarrow>
            m_navigationState (navigationStep env st) = NAV_ERROR \<and>
            SendWaySeemsBlockedEvent \<in> set (calls_of_step env st) \<and>
            (\<forall>b. Stop b \<notin> set (calls_of_step env st))) \<and>
         alarm_seems_not_approaching_target_timeout TAbstractNavigatorParams_init = 30"
proof -
  let ?st' = "snd (pose_refresh env st)"
  let ?d = "targetDist ?st' p"
  have step: "navigationStep env st = (arrival_and_alarm env p ?d ?st')\<lparr>m_lastNavigationState := NAVIGATING\<rparr>"
    using step_navigating [OF nav ok hist par] .
  obtain cs where cs: "m_robot ?st' = m_robot st @ cs"
    "set cs \<subseteq> {StartWatchdog 1000, SendNavigationStartEvent, GetNavigationTime, GetCurrentPoseAndSpeeds}"
    using refresh_calls [OF ok] by blast
  have improved: "m_badNavAlarm_minDistTarget (navigationStep env st) = ?d \<and>
        m_badNavAlarm_lastMinDistTime (navigationStep env st) = env_now env"
    if "?d < m_badNavAlarm_minDistTarget st"
    using arrival_stall(1) [OF far, of ?st' env] that step by (simp add: refresh_alarm_params)
  have kept: "m_badNavAlarm_minDistTarget (navigationStep env st) = m_badNavAlarm_minDistTarget st \<and>
        m_badNavAlarm_lastMinDistTime (navigationStep env st) = m_badNavAlarm_lastMinDistTime st"
    if no: "\<not> ?d < m_badNavAlarm_minDistTarget st"
  proof -
    have "\<not> ?d < m_badNavAlarm_minDistTarget ?st'"
      using no by (simp add: refresh_alarm_params)
    from arrival_not_improved [OF far this, of env] show ?thesis
      using step by (simp add: refresh_alarm_params)
  qed
  have stalled: "m_navigationState (navigationStep env st) = NAV_ERROR \<and>
        SendWaySeemsBlockedEvent \<in> set (calls_of_step env st) \<and>
        (\<forall>b. Stop b \<notin> set (calls_of_step env st))"
    if no: "\<not> ?d < m_badNavAlarm_minDistTarget st"
      and late: "timeDifference (m_badNavAlarm_lastMinDistTime st) (env_now env)
            > alarm_seems_not_approaching_target_timeout (params_abstract_navigator st)"
  proof -
    have no': "\<not> ?d < m_badNavAlarm_minDistTarget ?st'"
      using no by (simp add: refresh_alarm_params)
    have late': "timeDifference (m_badNavAlarm_lastMinDistTime ?st') (env_now env)
            > alarm_seems_not_approaching_target_timeout (params_abstract_navigator ?st')"
      using late by (simp add: refresh_alarm_params)
    from arrival_stall(2) [OF far no' late'] obtain pre where
      err: "m_navigationState (arrival_and_alarm env p ?d ?st') = NAV_ERROR"
      and tr: "m_robot (arrival_and_alarm env p ?d ?st') = m_robot ?st' @ pre @ [SendWaySeemsBlockedEvent]"
      and pre: "set pre \<subseteq> {SendNavigationEndEvent}"
      by blast
    have "m_robot (navigationStep env st) = m_robot st @ (cs @ pre @ [SendWaySeemsBlockedEvent])"
      using step tr cs(1) by simp
    then have calls: "calls_of_step env st = cs @ pre @ [SendWaySeemsBlockedEvent]"
      by (simp add: calls_of_step_def)
    have "m_navigationState (navigationStep env st) = NAV_ERROR"
      using step err by simp
    moreover have "SendWaySeemsBlockedEvent \<in> set (calls_of_step env st)"
      using calls by simp
    moreover have "\<forall>b. Stop b \<notin> set (calls_of_step env st)"
      using calls cs(2) pre by auto
    ultimately show ?thesis by blast
  qed
  have default: "alarm_seems_not_approaching_target_timeout TAbstractNavigatorParams_init = 30"
    by (simp add: TAbstractNavigatorParams_init_def)
  from improved kept stalled default show ?thesis by blast
qed

lemma hypot_nonneg: "0 \<le> hypot a b"
  by (simp add: hypot_def)

lemma DBL_MAX_large: "1000000 < DBL_MAX"
  by (simp add: DBL_MAX_def)

lemma first_tick_far:
  assumes "\<not> hypot (a - x) (b - y) < 0.5" and "hypot (a - x) (b - y) < DBL_MAX"
  shows "navigationStep (env_at x y t) (navigating_to a b i) =
     (navigating_to a b i)
        \<lparr>m_robot := [StartWatchdog 1000, SendNavigationStartEvent, GetNavigationTime, GetCurrentPoseAndSpeeds,
                     ChangeSpeeds],
         m_latestPoses := [(t, \<lparr>pose_x = x, pose_y = y, pose_phi = 0\<rparr>)],
         m_last_curPoseVelUpdate_robot_time := t,
         m_curPoseVel := \<lparr>pose = \<lparr>pose_x = x, pose_y = y, pose_phi = 0\<rparr>, velGlobal = \<lparr>vx = 0, vy = 0, omega = 0\<rparr>,
                            velLocal = \<lparr>vx = 0, vy = 0, omega = 0\<rparr>, timestamp = t\<rparr>,
         m_badNavAlarm_minDistTarget := hypot (a - x) (b - y),
         m_badNavAlarm_lastMinDistTime := t,
         m_lastNavigationState := NAVIGATING\<rparr>"
proof -
  have "navigationStep (env_at x y t) (navigating_to a b i) =
        (arrival_and_alarm (env_at x y t) (target_at a b i)
           (targetDist (snd (pose_refresh (env_at x y t) (navigating_to a b i))) (target_at a b i))
           (snd (pose_refresh (env_at x y t) (navigating_to a b i))))\<lparr>m_lastNavigationState := NAVIGATING\<rparr>"
    by (rule step_navigating) (simp_all add: refresh_first_tick, simp_all add: navigating_to_simp)
  then have "navigationStep (env_at x y t) (navigating_to a b i) =
        (arrival_and_alarm (env_at x y t) (target_at a b i) (hypot (a - x) (b - y))
           (snd (pose_refresh (env_at x y t) (navigating_to a b i))))\<lparr>m_lastNavigationState := NAVIGATING\<rparr>"
    by (simp only: targetDist_first_tick)
  from this [unfolded refresh_first_tick snd_conv] show ?thesis
    using assms hypot_nonneg [of "a - x" "b - y"]
    by (simp add: arrival_and_alarm_def target_at_def Let_def navigating_to_simp
        CAbstractNavigator_def TAbstractNavigatorParams_init_def performNavigationStep_def env_at_def robot_def)
qed


lemma frozen_robot_simp:
  "frozen_robot =
     (navigating_to 10 0 False)
        \<lparr>m_robot := [StartWatchdog 1000, SendNavigationStartEvent, GetNavigationTime, GetCurrentPoseAndSpeeds,
                     ChangeSpeeds],
         m_latestPoses := [(2, \<lparr>pose_x = 0, pose_y = 0, pose_phi = 0\<rparr>)],
         m_last_curPoseVelUpdate_robot_time := 2,
         m_curPoseVel := \<lparr>pose = \<lparr>pose_x = 0, pose_y = 0, pose_phi = 0\<rparr>, velGlobal = \<lparr>vx = 0, vy = 0, omega = 0\<rparr>,
                            velLocal = \<lparr>vx = 0, vy = 0, omega = 0\<rparr>, timestamp = 2\<rparr>,
         m_badNavAlarm_minDistTarget := 10,
         m_badNavAlarm_lastMinDistTime := 2,
         m_lastNavigationState := NAVIGATING\<rparr>"
proof -
  have h: "hypot 10 0 = 10" by (simp add: hypot_axis)
  have "\<not> hypot (10 - 0) (0 - 0) < 0.5" "hypot (10 - 0) (0 - 0) < DBL_MAX"
    using DBL_MAX_large by (simp_all add: h)
  from first_tick_far [OF this, of 2 False] show ?thesis
    by (simp add: frozen_robot_def h)
qed

lemma frozen_robot_refresh:
  "pose_refresh (env_at 0 0 40) frozen_robot =
     (False, frozen_robot
        \<lparr>m_robot := [StartWatchdog 1000, SendNavigationStartEvent, GetNavigationTime, GetCurrentPoseAndSpeeds,
                     ChangeSpeeds, GetNavigationTime, GetCurrentPoseAndSpeeds],
         m_latestPoses := [(40, \<lparr>pose_x = 0, pose_y = 0, pose_phi = 0\<rparr>)],
         m_last_curPoseVelUpdate_robot_time := 40,
         m_curPoseVel := \<lparr>pose = \<lparr>pose_x = 0, pose_y = 0, pose_phi = 0\<rparr>, velGlobal = \<lparr>vx = 0, vy = 0, omega = 0\<rparr>,
                            velLocal = \<lparr>vx = 0, vy = 0, omega = 0\<rparr>, timestamp = 40\<rparr>\<rparr>)"
  by (simp add: frozen_robot_simp pose_refresh_def navigating_to_simp CAbstractNavigator_def
      start_of_navigation_def robot_def updateCurrentPoseAndSpeeds_def env_at_def rotate_def Let_def
      MIN_TIME_BETWEEN_POSE_UPDATES_def timeDifference_def PREVIOUS_POSES_MAX_AGE_def)

lemma frozen_robot_dist:
  "targetDist (snd (pose_refresh (env_at 0 0 40) frozen_robot)) (target_at 10 0 False) = 10"
  by (simp add: frozen_robot_refresh targetDist_def seg_robot_mov_def point_of_pose_def
      segment_distance_def point_distance_def target_at_def hypot_axis)

text \<open>
  The robot frozen 10 m from its target: the minimum distance 10 was stored at time 2, and
  the tick at time 40 raises the alarm.
\<close>

theorem C9_stall_alarm_witness:
  "m_navigationState frozen_robot = NAVIGATING \<and>
   m_navigationParams frozen_robot = Some (target_at 10 0 False) \<and>
   \<not> fst (pose_refresh (env_at 0 0 40) frozen_robot) \<and>
   m_latestPoses (snd (pose_refresh (env_at 0 0 40) frozen_robot)) \<noteq> [] \<and>
   \<not> targetDist (snd (pose_refresh (env_at 0 0 40) frozen_robot)) (target_at 10 0 False)
       < targetAllowedDistance (target_at 10 0 False) \<and>
   \<not> targetDist (snd (pose_refresh (env_at 0 0 40) frozen_robot)) (target_at 10 0 False)
       < m_badNavAlarm_minDistTarget frozen_robot \<and>
   timeDifference (m_badNavAlarm_lastMinDistTime frozen_robot) (env_now (env_at 0 0 40))
     > alarm_seems_not_approaching_target_timeout (params_abstract_navigator frozen_robot) \<and>
   m_navigationState (navigationStep (env_at 0 0 40) frozen_robot) = NAV_ERROR \<and>
   SendWaySeemsBlockedEvent \<in> set (calls_of_step (env_at 0 0 40) frozen_robot) \<and>
   (\<forall>b. Stop b \<notin> set (calls_of_step (env_at 0 0 40) frozen_robot)) \<and>
   m_badNavAlarm_minDistTarget frozen_robot = 10 \<and>
   m_badNavAlarm_lastMinDistTime frozen_robot = 2 \<and>
   m_badNavAlarm_minDistTarget (navigationStep (env_at 0 0 40) frozen_robot) = 10 \<and>
   m_badNavAlarm_lastMinDistTime (navigationStep (env_at 0 0 40) frozen_robot) = 2"
proof -
  have nav: "m_navigationState frozen_robot = NAVIGATING"
    and par: "m_navigationParams frozen_robot = Some (target_at 10 0 False)"
    and min: "m_badNavAlarm_minDistTarget frozen_robot = 10"
    and tim: "m_badNavAlarm_lastMinDistTime frozen_robot = 2"
    by (simp_all add: frozen_robot_simp navigating_to_simp)
  have ok: "\<not> fst (pose_refresh (env_at 0 0 40) frozen_robot)"
    and hist: "m_latestPoses (snd (pose_refresh (env_at 0 0 40) frozen_robot)) \<noteq> []"
    by (simp_all add: frozen_robot_refresh)
  have far: "\<not> targetDist (snd (pose_refresh (env_at 0 0 40) frozen_robot)) (target_at 10 0 False)
       < targetAllowedDistance (target_at 10 0 False)"
    by (simp add: frozen_robot_dist) (simp add: target_at_def)
  have no: "\<not> targetDist (snd (pose_refresh (env_at 0 0 40) frozen_robot)) (target_at 10 0 False)
       < m_badNavAlarm_minDistTarget frozen_robot"
    by (simp add: frozen_robot_dist min)
  have late: "timeDifference (m_badNavAlarm_lastMinDistTime frozen_robot) (env_now (env_at 0 0 40))
     > alarm_seems_not_approaching_target_timeout (params_abstract_navigator frozen_robot)"
    by (simp add: tim timeDifference_def env_at_def)
       (simp add: frozen_robot_simp navigating_to_simp CAbstractNavigator_def TAbstractNavigatorParams_init_def)
  note c9 = C9_stall_alarm [OF nav par ok hist far]
  from c9 no late
  have alarm: "m_navigationState (navigationStep (env_at 0 0 40) frozen_robot) = NAV_ERROR"
    "SendWaySeemsBlockedEvent \<in> set (calls_of_step (env_at 0 0 40) frozen_robot)"
    "\<forall>b. Stop b \<notin> set (calls_of_step (env_at 0 0 40) frozen_robot)"
    by blast+
  from c9 no
  have "m_badNavAlarm_minDistTarget (navigationStep (env_at 0 0 40) frozen_robot)
          = m_badNavAlarm_minDistTarget frozen_robot"
    and "m_badNavAlarm_lastMinDistTime (navigationStep (env_at 0 0 40) frozen_robot)
          = m_badNavAlarm_lastMinDistTime frozen_robot"
    by blast+
  then have kept: "m_badNavAlarm_minDistTarget (navigationStep (env_at 0 0 40) frozen_robot) = 10"
    "m_badNavAlarm_lastMinDistTime (navigationStep (env_at 0 0 40) frozen_robot) = 2"
    by (simp_all only: min tim)
  from nav par ok hist far no late alarm min tim kept show ?thesis
    by (intro conjI)
qed

subsection \<open>The edges of the state machine\<close>














section \<open>Properties of the waypoint sequencer\<close>

text \<open>
  The ticks of the scenarios are evaluated by rewriting with the definitions of the model.
\<close>

lemmas nav_defs = navigationStep_def case_NAVIGATING_def case_IDLE_SUSPENDED_def case_NAV_ERROR_def
  start_of_navigation_def onStartNewNavigation_def robot_def stop_def updateCurrentPoseAndSpeeds_def
  arrival_and_alarm_def performNavigationStep_def targetDist_def seg_robot_mov_def point_of_pose_def
  segment_distance_def point_distance_def navigate_def rotate_def timeDifference_def
  MIN_TIME_BETWEEN_POSE_UPDATES_def PREVIOUS_POSES_MAX_AGE_def Let_def

lemmas wp_defs = CWaypointsNavigator_navigationStep_def waypoints_step_def request_navigation_def
  skip_look_ahead_def reach_current_goal_def inverseComposePoint_def norm_pt_def
  scan_waypoints.simps mark_skipped.simps

lemmas scenario_defs = sequencer_state_def waypoint_status_def target_at_def env_at_def
  first_tick_calls_def quiet_tick_calls_def skipping_tick_calls_def skip_params_def far_params_def
  TAbstractNavigatorParams_init_def

lemma DBL_MAX_gt: "x \<le> 1000000 \<Longrightarrow> x < DBL_MAX"
  by (simp add: DBL_MAX_def)

lemma INVALID_NUM_neq: "x \<le> 1000000 \<Longrightarrow> x \<noteq> INVALID_NUM" "x \<le> 1000000 \<Longrightarrow> INVALID_NUM \<noteq> x"
  using DBL_MAX_gt [of x] by (auto simp: INVALID_NUM_def)

lemma isValid_waypoint_at: "x \<le> 1000000 \<Longrightarrow> y \<le> 1000000 \<Longrightarrow> isValid (waypoint_at x y s)"
  by (simp add: isValid_def waypoint_at_def INVALID_NUM_neq) (simp add: INVALID_NUM_def DBL_MAX_def)

lemma status_of_waypoint_at: "status_of_waypoint (waypoint_at x y s) = waypoint_status x y s False 0"
  by (simp add: status_of_waypoint_def waypoint_at_def waypoint_status_def TWaypoint.extend_def
      TWaypointStatus.fields_def)

lemma sequencer_simp:
  assumes "req \<noteq> []" and "list_all isValid req"
  shows "sequencer md mt req =
    \<lparr>m_lastNavigationState = IDLE, m_navigationEndEventSent = False, m_navigationState = IDLE,
       m_navigationParams = None, m_lastNavTargetReached = False, m_robot = [],
       m_curPoseVel = TRobotPoseVel_init, m_last_curPoseVelUpdate_robot_time = - 1000000000,
       m_latestPoses = [], m_badNavAlarm_minDistTarget = 0, m_badNavAlarm_lastMinDistTime = 0,
       params_abstract_navigator = TAbstractNavigatorParams_init,
       m_waypoint_nav_status =
         \<lparr>waypoints = map status_of_waypoint req, timestamp_nav_started = 0,
            final_goal_reached = False, waypoint_index_current_goal = - 1,
            last_robot_pose = \<lparr>pose_x = INVALID_NUM, pose_y = INVALID_NUM, pose_phi = INVALID_NUM\<rparr>\<rparr>,
       params_waypoints_navigator =
         \<lparr>max_distance_to_allow_skip_waypoint = md, min_timesteps_confirm_skip_waypoints = mt\<rparr>\<rparr>"
proof -
  have tw: "takeWhile isValid req = req"
    using assms(2) by (simp add: takeWhile_eq_all_conv list_all_iff)
  show ?thesis
    using assms(1)
    by (simp add: sequencer_def navigateWaypoints_def CWaypointsNavigator_def CAbstractNavigator_def
        navigator.extend_def waypoints_navigator.fields_def TWaypointStatusSequence_init_def
        env_at_def Let_def tw)
qed

lemma sequencer_three:
  assumes "x1 \<le> 1000000" "y1 \<le> 1000000" "x2 \<le> 1000000" "y2 \<le> 1000000" "x3 \<le> 1000000" "y3 \<le> 1000000"
  shows "sequencer md mt [waypoint_at x1 y1 s1, waypoint_at x2 y2 s2, waypoint_at x3 y3 s3] =
    \<lparr>m_lastNavigationState = IDLE, m_navigationEndEventSent = False, m_navigationState = IDLE,
       m_navigationParams = None, m_lastNavTargetReached = False, m_robot = [],
       m_curPoseVel = TRobotPoseVel_init, m_last_curPoseVelUpdate_robot_time = - 1000000000,
       m_latestPoses = [], m_badNavAlarm_minDistTarget = 0, m_badNavAlarm_lastMinDistTime = 0,
       params_abstract_navigator = TAbstractNavigatorParams_init,
       m_waypoint_nav_status =
         \<lparr>waypoints = [waypoint_status x1 y1 s1 False 0, waypoint_status x2 y2 s2 False 0,
                         waypoint_status x3 y3 s3 False 0],
            timestamp_nav_started = 0,
            final_goal_reached = False, waypoint_index_current_goal = - 1,
            last_robot_pose = \<lparr>pose_x = INVALID_NUM, pose_y = INVALID_NUM, pose_phi = INVALID_NUM\<rparr>\<rparr>,
       params_waypoints_navigator =
         \<lparr>max_distance_to_allow_skip_waypoint = md, min_timesteps_confirm_skip_waypoints = mt\<rparr>\<rparr>"
proof -
  have "list_all isValid [waypoint_at x1 y1 s1, waypoint_at x2 y2 s2, waypoint_at x3 y3 s3]"
    using assms by (simp add: isValid_waypoint_at)
  then show ?thesis
    by (subst sequencer_simp) (simp_all add: status_of_waypoint_at)
qed

lemmas eval_rules = wp_defs nav_defs scenario_defs TRobotPoseVel_init_def hypot_axis INVALID_NUM_neq DBL_MAX_gt

lemma skip_tick_1:
  "CWaypointsNavigator_navigationStep (env_at 0 0 1) (skip_scenario b) =
     (False, sequencer_state skip_params (target_at 1 0 True) first_tick_calls [1] 1 1
        [waypoint_status 1 0 True False 0, waypoint_status 2 0 True False 0, waypoint_status 3 0 b False 0] 0)"
  unfolding skip_scenario_def
  by (subst sequencer_three) (simp_all add: eval_rules)

lemma skip_tick_2:
  "CWaypointsNavigator_navigationStep (env_at 0 0 2)
     (sequencer_state skip_params (target_at 1 0 True) first_tick_calls [1] 1 1
        [waypoint_status 1 0 True False 0, waypoint_status 2 0 True False 0, waypoint_status 3 0 b False 0] 0) =
     (False, sequencer_state skip_params (target_at 1 0 True) (first_tick_calls @ quiet_tick_calls) [1, 2] 1 1
        [waypoint_status 1 0 True False 1, waypoint_status 2 0 True False 1, waypoint_status 3 0 b False 1] 0)"
  by (cases b) (simp_all add: eval_rules)

lemma skip_tick_3:
  "CWaypointsNavigator_navigationStep (env_at 0 0 3)
     (sequencer_state skip_params (target_at 1 0 True) (first_tick_calls @ quiet_tick_calls) [1, 2] 1 1
        [waypoint_status 1 0 True False 1, waypoint_status 2 0 True False 1, waypoint_status 3 0 b False 1] 0) =
     (False, sequencer_state skip_params (target_at 1 0 True)
        (first_tick_calls @ quiet_tick_calls @ quiet_tick_calls) [1, 2, 3] 1 1
        [waypoint_status 1 0 True False 2, waypoint_status 2 0 True False 2, waypoint_status 3 0 b False 2] 0)"
  by (cases b) (simp_all add: eval_rules)

lemma skip_tick_4:
  "CWaypointsNavigator_navigationStep (env_at 0 0 4)
     (sequencer_state skip_params (target_at 1 0 True)
        (first_tick_calls @ quiet_tick_calls @ quiet_tick_calls) [1, 2, 3] 1 1
        [waypoint_status 1 0 True False 2, waypoint_status 2 0 True False 2, waypoint_status 3 0 b False 2] 0) =
     (False, sequencer_state skip_params (target_at 3 0 False)
        (first_tick_calls @ quiet_tick_calls @ quiet_tick_calls @ skipping_tick_calls) [1, 2, 3, 4] 3 4
        [waypoint_status 1 0 True True 3, waypoint_status 2 0 True True 3, waypoint_status 3 0 b False 3] 2)"
  by (cases b) (simp_all add: eval_rules)


lemma skip_three_ticks:
  "waypoint_ticks [env_at 0 0 1, env_at 0 0 2, env_at 0 0 3] (skip_scenario b) =
     sequencer_state skip_params (target_at 1 0 True)
        (first_tick_calls @ quiet_tick_calls @ quiet_tick_calls) [1, 2, 3] 1 1
        [waypoint_status 1 0 True False 2, waypoint_status 2 0 True False 2, waypoint_status 3 0 b False 2] 0"
  by (simp add: skip_tick_1 skip_tick_2 skip_tick_3)

lemma skip_four_ticks:
  "waypoint_ticks [env_at 0 0 1, env_at 0 0 2, env_at 0 0 3, env_at 0 0 4] (skip_scenario b) =
     sequencer_state skip_params (target_at 3 0 False)
        (first_tick_calls @ quiet_tick_calls @ quiet_tick_calls @ skipping_tick_calls) [1, 2, 3, 4] 3 4
        [waypoint_status 1 0 True True 3, waypoint_status 2 0 True True 3, waypoint_status 3 0 b False 3] 2"
  by (simp add: skip_tick_1 skip_tick_2 skip_tick_3 skip_tick_4)

text \<open>
  Claim C4, as the code has it. Waypoints (1, 0) and (2, 0) with \<open>allow_skip\<close>, the final
  waypoint (3, 0) (with either value of its flag), every point reachable, no limit on the
  look-ahead distance, \<open>min_timesteps_confirm_skip_waypoints = 2\<close>, the robot standing at the
  origin. After exactly 4 ticks the current goal index is 2 and designates waypoint (3, 0), and
  the waypoint-reached events emitted are those of the indices 0 and 1. After 3 ticks the
  goal index is still 0 and no waypoint-reached event has been emitted: the first tick only
  starts the sequence at index 0 (the look-ahead runs only when a goal is set), and a
  waypoint is confirmed when its counter exceeds \<open>min_timesteps_confirm_skip_waypoints\<close>,
  at its third sighting.
\<close>

theorem C4_skip_after_four_ticks:
  "waypoint_index_current_goal (m_waypoint_nav_status
      (waypoint_ticks [env_at 0 0 1, env_at 0 0 2, env_at 0 0 3, env_at 0 0 4] (skip_scenario b))) = 2 \<and>
   wp_target (waypoints (m_waypoint_nav_status
      (waypoint_ticks [env_at 0 0 1, env_at 0 0 2, env_at 0 0 3, env_at 0 0 4] (skip_scenario b))) ! 2)
     = \<lparr>pt_x = 3, pt_y = 0\<rparr> \<and>
   filter is_waypoint_reached (m_robot
      (waypoint_ticks [env_at 0 0 1, env_at 0 0 2, env_at 0 0 3, env_at 0 0 4] (skip_scenario b)))
     = [SendWaypointReachedEvent 0, SendWaypointReachedEvent 1] \<and>
   waypoint_index_current_goal (m_waypoint_nav_status
      (waypoint_ticks [env_at 0 0 1, env_at 0 0 2, env_at 0 0 3] (skip_scenario b))) = 0 \<and>
   filter is_waypoint_reached (m_robot
      (waypoint_ticks [env_at 0 0 1, env_at 0 0 2, env_at 0 0 3] (skip_scenario b))) = []"
  unfolding skip_three_ticks skip_four_ticks
  by (simp add: sequencer_state_def waypoint_status_def first_tick_calls_def quiet_tick_calls_def
      skipping_tick_calls_def)

text \<open>
  The claim C4 as it was stated ("after exactly 3 ticks") fails: after 3 ticks the goal index
  is not 2, and no waypoint-reached event was emitted for index 0 or 1.
\<close>

theorem C4_three_ticks_counterexample:
  "waypoint_index_current_goal (m_waypoint_nav_status
      (waypoint_ticks [env_at 0 0 1, env_at 0 0 2, env_at 0 0 3] (skip_scenario False))) \<noteq> 2 \<and>
   SendWaypointReachedEvent 0 \<notin> set (m_robot
      (waypoint_ticks [env_at 0 0 1, env_at 0 0 2, env_at 0 0 3] (skip_scenario False))) \<and>
   SendWaypointReachedEvent 1 \<notin> set (m_robot
      (waypoint_ticks [env_at 0 0 1, env_at 0 0 2, env_at 0 0 3] (skip_scenario False))) \<and>
   waypoint_index_current_goal (m_waypoint_nav_status
      (waypoint_ticks [env_at 0 0 1, env_at 0 0 2, env_at 0 0 3] (skip_scenario True))) \<noteq> 2 \<and>
   SendWaypointReachedEvent 0 \<notin> set (m_robot
      (waypoint_ticks [env_at 0 0 1, env_at 0 0 2, env_at 0 0 3] (skip_scenario True))) \<and>
   SendWaypointReachedEvent 1 \<notin> set (m_robot
      (waypoint_ticks [env_at 0 0 1, env_at 0 0 2, env_at 0 0 3] (skip_scenario True)))"
  unfolding skip_three_ticks
  by (simp add: sequencer_state_def first_tick_calls_def quiet_tick_calls_def)

subsection \<open>A waypoint that must not be skipped, beyond the look-ahead distance\<close>

lemma far_tick_1:
  "CWaypointsNavigator_navigationStep (env_at 0 0 1) far_waypoint_scenario =
     (False, sequencer_state far_params (target_at 1 0 True) first_tick_calls [1] 1 1
        [waypoint_status 1 0 True False 0, waypoint_status 100 0 False False 0,
         waypoint_status 2 0 True False 0] 0)"
  unfolding far_waypoint_scenario_def
  by (subst sequencer_three) (simp_all add: eval_rules)

lemma far_tick_2:
  "CWaypointsNavigator_navigationStep (env_at 0 0 2)
     (sequencer_state far_params (target_at 1 0 True) first_tick_calls [1] 1 1
        [waypoint_status 1 0 True False 0, waypoint_status 100 0 False False 0,
         waypoint_status 2 0 True False 0] 0) =
     (False, sequencer_state far_params (target_at 1 0 True) (first_tick_calls @ quiet_tick_calls) [1, 2] 1 1
        [waypoint_status 1 0 True False 1, waypoint_status 100 0 False False 0,
         waypoint_status 2 0 True False 1] 0)"
  by (simp add: eval_rules)

lemma far_tick_3:
  "CWaypointsNavigator_navigationStep (env_at 0 0 3)
     (sequencer_state far_params (target_at 1 0 True) (first_tick_calls @ quiet_tick_calls) [1, 2] 1 1
        [waypoint_status 1 0 True False 1, waypoint_status 100 0 False False 0,
         waypoint_status 2 0 True False 1] 0) =
     (False, sequencer_state far_params (target_at 2 0 False)
        (first_tick_calls @ quiet_tick_calls @ skipping_tick_calls) [1, 2, 3] 2 3
        [waypoint_status 1 0 True True 2, waypoint_status 100 0 False True 0,
         waypoint_status 2 0 True False 2] 2)"
  by (simp add: eval_rules)

lemma far_three_ticks:
  "waypoint_ticks [env_at 0 0 1, env_at 0 0 2, env_at 0 0 3] far_waypoint_scenario =
     sequencer_state far_params (target_at 2 0 False)
        (first_tick_calls @ quiet_tick_calls @ skipping_tick_calls) [1, 2, 3] 2 3
        [waypoint_status 1 0 True True 2, waypoint_status 100 0 False True 0,
         waypoint_status 2 0 True False 2] 2"
  by (simp add: far_tick_1 far_tick_2 far_tick_3)

lemma far_two_ticks:
  "waypoint_ticks [env_at 0 0 1, env_at 0 0 2] far_waypoint_scenario =
     sequencer_state far_params (target_at 1 0 True) (first_tick_calls @ quiet_tick_calls) [1, 2] 1 1
        [waypoint_status 1 0 True False 1, waypoint_status 100 0 False False 0,
         waypoint_status 2 0 True False 1] 0"
  by (simp add: far_tick_1 far_tick_2)

text \<open>
  Claim C7, evaluated. Waypoint 1 has \<open>allow_skip = false\<close> and lies at or after the current
  goal index 0 when the third tick starts. It is 100 m away, beyond
  \<open>max_distance_to_allow_skip_waypoint = 10\<close>, so the scan leaves it with \<open>continue\<close> before
  the test of \<open>allow_skip\<close> is reached, goes on to waypoint 2 and selects it: at the end of the
  tick the goal index is 2, beyond waypoint 1, and waypoint 1 was marked reached by the skip
  logic.
\<close>

theorem C7_skip_crosses_far_waypoint:
  "waypoint_index_current_goal (m_waypoint_nav_status
      (waypoint_ticks [env_at 0 0 1, env_at 0 0 2] far_waypoint_scenario)) = 0 \<and>
   \<not> allow_skip (waypoints (m_waypoint_nav_status
      (waypoint_ticks [env_at 0 0 1, env_at 0 0 2] far_waypoint_scenario)) ! 1) \<and>
   waypoint_index_current_goal (m_waypoint_nav_status
      (waypoint_ticks [env_at 0 0 1, env_at 0 0 2, env_at 0 0 3] far_waypoint_scenario)) = 2 \<and>
   reached (waypoints (m_waypoint_nav_status
      (waypoint_ticks [env_at 0 0 1, env_at 0 0 2, env_at 0 0 3] far_waypoint_scenario)) ! 1) \<and>
   filter is_waypoint_reached (m_robot
      (waypoint_ticks [env_at 0 0 1, env_at 0 0 2, env_at 0 0 3] far_waypoint_scenario))
     = [SendWaypointReachedEvent 0, SendWaypointReachedEvent 1]"
  unfolding far_two_ticks far_three_ticks
  by (simp add: sequencer_state_def waypoint_status_def first_tick_calls_def quiet_tick_calls_def
      skipping_tick_calls_def)

section \<open>Properties of the reactive pipeline\<close>

subsection \<open>The distance that enters the safety ramp\<close>

text \<open>
  Claim C5, as the code has it. For a PTG that supports NOP, with \<open>obs\<close> the TP-obstacle
  distance at the chosen direction index and \<open>d = |v| maxTimeInVelCmdNOP(index)\<close>, the distance
  that enters the safety ramp is \<open>min(obs, max(0.90, obs - d))\<close>. It is \<open>obs - d\<close> only while
  \<open>obs - d\<close> is at least 0.90; when \<open>obs - d\<close> falls below 0.90 it is 0.90 if \<open>obs\<close> is at least
  0.90, and \<open>obs\<close> itself, with no reduction, if \<open>obs\<close> is below 0.90.
\<close>

theorem C5_obstacle_free_distance_floor:
  assumes nop: "supportVelCmdNOP ptg"
    and k: "alpha2index ptg direction < length tp_obstacles"
    and t: "0 \<le> maxTimeInVelCmdNOP ptg (int (alpha2index ptg direction))"
  shows "let obs = tp_obstacles ! alpha2index ptg direction;
             d = hypot (vx v) (vy v) * maxTimeInVelCmdNOP ptg (int (alpha2index ptg direction))
         in obsFreeNormalizedDistance ptg v tp_obstacles direction = Inr (min obs (max 0.90 (obs - d))) \<and>
            (0.90 \<le> obs - d \<longrightarrow> obsFreeNormalizedDistance ptg v tp_obstacles direction = Inr (obs - d)) \<and>
            (obs - d < 0.90 \<and> 0.90 \<le> obs \<longrightarrow>
               obsFreeNormalizedDistance ptg v tp_obstacles direction = Inr 0.90) \<and>
            (obs < 0.90 \<longrightarrow> obsFreeNormalizedDistance ptg v tp_obstacles direction = Inr obs)"
proof -
  define obs where "obs = tp_obstacles ! alpha2index ptg direction"
  define d where "d = hypot (vx v) (vy v) * maxTimeInVelCmdNOP ptg (int (alpha2index ptg direction))"
  have d0: "0 \<le> d"
    unfolding d_def using t by (simp add: hypot_nonneg)
  have code: "obsFreeNormalizedDistance ptg v tp_obstacles direction = Inr (min obs (max 0.90 (obs - d)))"
    using nop k by (simp add: obsFreeNormalizedDistance_def Let_def obs_def d_def)
  have "min obs (max 0.90 (obs - d)) = obs - d" if "0.90 \<le> obs - d"
    using that d0 by (simp add: min_def max_def)
  moreover have "min obs (max 0.90 (obs - d)) = 0.90" if "obs - d < 0.90" "0.90 \<le> obs"
    using that by (simp add: min_def max_def)
  moreover have "min obs (max 0.90 (obs - d)) = obs" if "obs < 0.90"
    using that by (simp add: min_def max_def)
  ultimately show ?thesis
    using code unfolding Let_def obs_def [symmetric] d_def [symmetric] by simp
qed

lemma hypot_moving_forward: "hypot (vx moving_forward) (vy moving_forward) = 1"
  by (simp add: moving_forward_def hypot_axis)

text \<open>
  The claim C5 as it was stated ("reduced by \<open>|v| maxTimeInVelCmdNOP\<close>, with no lower clamp")
  fails: at speed 1 with a NOP time of 1/4, a TP-obstacle distance 1/2 enters the ramp as
  1/2, not 1/4, and a TP-obstacle distance 1 enters it as 0.90, not 3/4.
\<close>

theorem C5_no_reduction_counterexample:
  "supportVelCmdNOP example_ptg \<and>
   [1, 1 / 2, 1] ! alpha2index example_ptg 0 = 1 / 2 \<and>
   hypot (vx moving_forward) (vy moving_forward)
     * maxTimeInVelCmdNOP example_ptg (int (alpha2index example_ptg 0)) = 1 / 4 \<and>
   obsFreeNormalizedDistance example_ptg moving_forward [1, 1 / 2, 1] 0 = Inr (1 / 2) \<and>
   obsFreeNormalizedDistance example_ptg moving_forward [1, 1 / 2, 1] 0 \<noteq> Inr (1 / 2 - 1 / 4) \<and>
   obsFreeNormalizedDistance example_ptg moving_forward [1, 1, 1] 0 = Inr (9 / 10) \<and>
   obsFreeNormalizedDistance example_ptg moving_forward [1, 1, 1] 0 \<noteq> Inr (1 - 1 / 4)"
  by (simp add: obsFreeNormalizedDistance_def hypot_moving_forward Let_def) (simp add: example_ptg_def)

text \<open>The hypotheses of C5 hold for the example PTG.\<close>

theorem C5_obstacle_free_distance_floor_witness:
  "supportVelCmdNOP example_ptg \<and>
   alpha2index example_ptg 0 < length [1, 1 / 2, 1 :: real] \<and>
   0 \<le> maxTimeInVelCmdNOP example_ptg (int (alpha2index example_ptg 0)) \<and>
   obsFreeNormalizedDistance example_ptg moving_forward [1, 1 / 2, 1] 0 = Inr (1 / 2)"
proof -
  have nop: "supportVelCmdNOP example_ptg"
    and k: "alpha2index example_ptg 0 < length [1, 1 / 2, 1 :: real]"
    and t: "0 \<le> maxTimeInVelCmdNOP example_ptg (int (alpha2index example_ptg 0))"
    by (simp_all add: example_ptg_def)
  have obs: "[1, 1 / 2, 1 :: real] ! alpha2index example_ptg 0 = 1 / 2"
    by (simp add: example_ptg_def)
  from C5_obstacle_free_distance_floor [OF nop k t, of moving_forward]
  have "obsFreeNormalizedDistance example_ptg moving_forward [1, 1 / 2, 1] 0 = Inr (1 / 2)"
    unfolding Let_def obs by simp
  with nop k t show ?thesis by (intro conjI)
qed

subsection \<open>The NOP candidate\<close>

lemma can_do_nop_motion_True:
  "can_do_nop_motion ptgs c changed t0 = Inr True \<longleftrightarrow>
     TSentVelCmd_isValid c \<and> \<not> changed \<and>
     (\<exists>ptg. getPTG ptgs (ptg_index c) = Inr ptg \<and> supportVelCmdNOP ptg \<and>
            timeDifference (tim_send_cmd_vel c) t0 < maxTimeInVelCmdNOP ptg (ptg_alpha_index c))"
  by (cases "getPTG ptgs (ptg_index c)") (auto simp: can_do_nop_motion_def)

text \<open>
  Claim C6, as the code has it. In the NOP round of a tick, the candidate of index N is
  evaluated (by \<open>build_movement_candidate\<close>) if and only if the last sent command is valid, the
  target is unchanged since the previous tick, the PTG of the last sent command exists and
  supports NOP, the time since the last send is strictly less than \<open>maxTimeInVelCmdNOP\<close> of
  the commanded alpha index, and the robot pose at the corrected send time can be
  interpolated from the pose history. When the first four conditions hold and the
  interpolation fails, the candidate is not evaluated but marked inviable.
\<close>

theorem C6_nop_candidate_evaluated:
  "(nop_round ptgs c tgt last_tgt t0 avr interpolate = NOP_evaluated \<longleftrightarrow>
      TSentVelCmd_isValid c \<and> tgt = last_tgt \<and>
      (\<exists>ptg. getPTG ptgs (ptg_index c) = Inr ptg \<and> supportVelCmdNOP ptg \<and>
             timeDifference (tim_send_cmd_vel c) t0 < maxTimeInVelCmdNOP ptg (ptg_alpha_index c)) \<and>
      interpolate (tim_send_cmd_vel c + avr) \<noteq> None) \<and>
   (nop_round ptgs c tgt last_tgt t0 avr interpolate = NOP_inviable \<longleftrightarrow>
      TSentVelCmd_isValid c \<and> tgt = last_tgt \<and>
      (\<exists>ptg. getPTG ptgs (ptg_index c) = Inr ptg \<and> supportVelCmdNOP ptg \<and>
             timeDifference (tim_send_cmd_vel c) t0 < maxTimeInVelCmdNOP ptg (ptg_alpha_index c)) \<and>
      interpolate (tim_send_cmd_vel c + avr) = None)"
proof -
  let ?can = "can_do_nop_motion ptgs c (tgt \<noteq> last_tgt) t0"
  have ev: "nop_round ptgs c tgt last_tgt t0 avr interpolate = NOP_evaluated \<longleftrightarrow>
            ?can = Inr True \<and> interpolate (tim_send_cmd_vel c + avr) \<noteq> None"
    by (cases ?can; cases "interpolate (tim_send_cmd_vel c + avr)")
       (auto simp: nop_round_def Let_def split: bool.splits)
  have inv: "nop_round ptgs c tgt last_tgt t0 avr interpolate = NOP_inviable \<longleftrightarrow>
            ?can = Inr True \<and> interpolate (tim_send_cmd_vel c + avr) = None"
    by (cases ?can; cases "interpolate (tim_send_cmd_vel c + avr)")
       (auto simp: nop_round_def Let_def split: bool.splits)
  show ?thesis
    unfolding ev inv can_do_nop_motion_True by simp
qed

text \<open>
  The claim C6 as it was stated (the four conditions suffice) fails: all four hold, the pose
  history cannot be interpolated, and the candidate is marked inviable, not evaluated.
\<close>

theorem C6_interpolation_counterexample:
  "TSentVelCmd_isValid example_sent \<and>
   getPTG [example_ptg] (ptg_index example_sent) = Inr example_ptg \<and>
   supportVelCmdNOP example_ptg \<and>
   timeDifference (tim_send_cmd_vel example_sent) (10 + 1 / 10)
     < maxTimeInVelCmdNOP example_ptg (ptg_alpha_index example_sent) \<and>
   nop_round [example_ptg] example_sent goal_pose goal_pose (10 + 1 / 10) 0 (\<lambda>t. None) = NOP_inviable \<and>
   nop_round [example_ptg] example_sent goal_pose goal_pose (10 + 1 / 10) 0 (\<lambda>t. None) \<noteq> NOP_evaluated"
proof -
  have v: "TSentVelCmd_isValid example_sent"
    by (simp add: TSentVelCmd_isValid_def example_sent_def INVALID_TIMESTAMP_def)
  have g: "getPTG [example_ptg] (ptg_index example_sent) = Inr example_ptg"
    by (simp add: getPTG_def example_sent_def)
  have s: "supportVelCmdNOP example_ptg"
    by (simp add: example_ptg_def)
  have e: "timeDifference (tim_send_cmd_vel example_sent) (10 + 1 / 10)
             < maxTimeInVelCmdNOP example_ptg (ptg_alpha_index example_sent)"
    by (simp add: timeDifference_def example_sent_def example_ptg_def)
  have r: "nop_round [example_ptg] example_sent goal_pose goal_pose (10 + 1 / 10) 0 (\<lambda>t. None) = NOP_inviable"
    using v g s e by (simp add: nop_round_def can_do_nop_motion_def)
  from v g s e r show ?thesis by simp
qed

text \<open>With a pose history that can be interpolated, the same tick evaluates the candidate.\<close>

theorem C6_nop_candidate_evaluated_witness:
  "nop_round [example_ptg] example_sent goal_pose goal_pose (10 + 1 / 10) 0 (\<lambda>t. Some goal_pose)
     = NOP_evaluated"
proof -
  have v: "TSentVelCmd_isValid example_sent"
    by (simp add: TSentVelCmd_isValid_def example_sent_def INVALID_TIMESTAMP_def)
  have g: "getPTG [example_ptg] (ptg_index example_sent) = Inr example_ptg"
    by (simp add: getPTG_def example_sent_def)
  have s: "supportVelCmdNOP example_ptg"
    by (simp add: example_ptg_def)
  have e: "timeDifference (tim_send_cmd_vel example_sent) (10 + 1 / 10)
             < maxTimeInVelCmdNOP example_ptg (ptg_alpha_index example_sent)"
    by (simp add: timeDifference_def example_sent_def example_ptg_def)
  show ?thesis
    using C6_nop_candidate_evaluated
            [of "[example_ptg]" example_sent goal_pose goal_pose "10 + 1 / 10" 0 "\<lambda>t. Some goal_pose"]
          v g s e
    by blast
qed

subsection \<open>The reachability query\<close>

lemma reachable_from_spec:
  assumes contract: "\<And>j. j < length ptgs \<Longrightarrow> ptg_contract (ptgs ! j) wp"
    and info: "\<And>j. j < length ptgs \<Longrightarrow> info_computed_or_empty (ptgs ! j) (infos ! j)"
  shows "reachable_from ptgs infos wp i =
           Inr (\<exists>j. i \<le> j \<and> j < length ptgs \<and> spec_free_path (ptgs ! j) (infos ! j) wp)"
  using assms
proof (induction ptgs infos wp i rule: reachable_from.induct)
  case (1 ptgs infos wp i)
  show ?case
  proof (cases "i < length ptgs")
    case False
    then show ?thesis by (subst reachable_from.simps) auto
  next
    case True
    obtain dom k d where im: "inverseMap_WS2TP (ptgs ! i) (pt_x wp) (pt_y wp) = (dom, k, d)"
      by (cases "inverseMap_WS2TP (ptgs ! i) (pt_x wp) (pt_y wp)") auto
    have c: "\<not> dom \<or> (0 \<le> k \<and> k < int (getPathCount (ptgs ! i)))"
      using "1.prems"(1) [OF True] im by (simp add: ptg_contract_def)
    have e: "TP_Obstacles (infos ! i) = [] \<or> length (TP_Obstacles (infos ! i)) = getPathCount (ptgs ! i)"
      using "1.prems"(2) [OF True] by (simp add: info_computed_or_empty_def)
    let ?rest = "\<exists>j. i + 1 \<le> j \<and> j < length ptgs \<and> spec_free_path (ptgs ! j) (infos ! j) wp"
    have split: "(\<exists>j. i \<le> j \<and> j < length ptgs \<and> spec_free_path (ptgs ! j) (infos ! j) wp) \<longleftrightarrow>
                 spec_free_path (ptgs ! i) (infos ! i) wp \<or> ?rest"
    proof
      assume "\<exists>j. i \<le> j \<and> j < length ptgs \<and> spec_free_path (ptgs ! j) (infos ! j) wp"
      then obtain j where j: "i \<le> j" "j < length ptgs" "spec_free_path (ptgs ! j) (infos ! j) wp"
        by blast
      show "spec_free_path (ptgs ! i) (infos ! i) wp \<or> ?rest"
      proof (cases "j = i")
        case True
        with j show ?thesis by simp
      next
        case False
        with j have "i + 1 \<le> j" by simp
        with j show ?thesis by blast
      qed
    next
      assume "spec_free_path (ptgs ! i) (infos ! i) wp \<or> ?rest"
      then show "\<exists>j. i \<le> j \<and> j < length ptgs \<and> spec_free_path (ptgs ! j) (infos ! j) wp"
      proof
        assume "spec_free_path (ptgs ! i) (infos ! i) wp"
        with True show ?thesis by blast
      next
        assume ?rest
        then obtain j where "i + 1 \<le> j" "j < length ptgs" "spec_free_path (ptgs ! j) (infos ! j) wp"
          by blast
        then have "i \<le> j \<and> j < length ptgs \<and> spec_free_path (ptgs ! j) (infos ! j) wp" by simp
        then show ?thesis by blast
      qed
    qed
    show ?thesis
    proof (cases "length (TP_Obstacles (infos ! i)) = getPathCount (ptgs ! i)")
      case False
      with e have empty: "TP_Obstacles (infos ! i) = []" by simp
      have nofree: "\<not> spec_free_path (ptgs ! i) (infos ! i) wp"
        using empty im by (simp add: spec_free_path_def)
      have "reachable_from ptgs infos wp i = reachable_from ptgs infos wp (i + 1)"
        using True False by (subst reachable_from.simps) (simp add: Let_def)
      also have "\<dots> = Inr ?rest"
        using "1.IH"(1) [OF True refl refl False] "1.prems" by simp
      finally show ?thesis using nofree split by simp
    next
      case same: True
      show ?thesis
      proof (cases dom)
        case False
        have nofree: "\<not> spec_free_path (ptgs ! i) (infos ! i) wp"
          using False im by (simp add: spec_free_path_def)
        have "reachable_from ptgs infos wp i = reachable_from ptgs infos wp (i + 1)"
          using True same False im by (subst reachable_from.simps) (simp add: Let_def)
        also have "\<dots> = Inr ?rest"
          using "1.IH"(2) [OF True refl refl _ im [symmetric] refl] same False "1.prems" by simp
        finally show ?thesis using nofree split by simp
      next
        case dom: True
        with c same have k: "0 \<le> k" "k < int (length (TP_Obstacles (infos ! i)))" by simp_all
        show ?thesis
        proof (cases "TP_Obstacles (infos ! i) ! nat k > 1.01 * d")
          case True
          have free: "spec_free_path (ptgs ! i) (infos ! i) wp"
            using True dom k im by (simp add: spec_free_path_def)
          have "reachable_from ptgs infos wp i = Inr True"
            using \<open>i < length ptgs\<close> same dom k True im
            by (subst reachable_from.simps) (simp add: Let_def)
          then show ?thesis using free split by simp
        next
          case False
          have nofree: "\<not> spec_free_path (ptgs ! i) (infos ! i) wp"
            using False im by (simp add: spec_free_path_def)
          have "reachable_from ptgs infos wp i = reachable_from ptgs infos wp (i + 1)"
            using True same dom k False im by (subst reachable_from.simps) (simp add: Let_def)
          also have "\<dots> = Inr ?rest"
            using "1.IH"(3) [OF True refl refl _ im [symmetric] refl] same dom k False "1.prems" by simp
          finally show ?thesis using nofree split by simp
        qed
      qed
    qed
  qed
qed


text \<open>
  Claim C8. The query returns false whenever the per-PTG information was never computed or
  is older than 500 ms. For PTGs that keep their contract (a point of the domain is mapped
  to one of the \<open>path_count\<close> directions) and per-PTG information as a tick leaves it (the
  TP-obstacles of a PTG are empty, or hold one distance per direction), the query returns
  what the spec says: true if and only if the information is fresh and some configured PTG
  maps \<open>wp\<close> into its domain at a direction index \<open>k\<close> and a normalised distance \<open>d\<close> with
  \<open>TP_obstacles[k] > 1.01 d\<close>; no assertion fails.
\<close>

theorem C8_reachability_query:
  "(m_infoPerPTG_timestamp = INVALID_TIMESTAMP \<or> timeDifference m_infoPerPTG_timestamp now > 0.5 \<longrightarrow>
      impl_waypoint_is_reachable ptgs m_infoPerPTG m_infoPerPTG_timestamp now wp = Inr False) \<and>
   ((\<forall>i < length ptgs. ptg_contract (ptgs ! i) wp \<and>
                          info_computed_or_empty (ptgs ! i) (m_infoPerPTG ! i)) \<longrightarrow>
      impl_waypoint_is_reachable ptgs m_infoPerPTG m_infoPerPTG_timestamp now wp =
        Inr (spec_waypoint_is_reachable ptgs m_infoPerPTG m_infoPerPTG_timestamp now wp))"
proof (intro conjI impI)
  assume "m_infoPerPTG_timestamp = INVALID_TIMESTAMP \<or> timeDifference m_infoPerPTG_timestamp now > 0.5"
  then show "impl_waypoint_is_reachable ptgs m_infoPerPTG m_infoPerPTG_timestamp now wp = Inr False"
    by (auto simp: impl_waypoint_is_reachable_def)
next
  assume a: "\<forall>i < length ptgs. ptg_contract (ptgs ! i) wp \<and>
                          info_computed_or_empty (ptgs ! i) (m_infoPerPTG ! i)"
  have loop: "reachable_from ptgs m_infoPerPTG wp 0 =
                Inr (\<exists>j. 0 \<le> j \<and> j < length ptgs \<and> spec_free_path (ptgs ! j) (m_infoPerPTG ! j) wp)"
    by (rule reachable_from_spec) (use a in simp_all)
  show "impl_waypoint_is_reachable ptgs m_infoPerPTG m_infoPerPTG_timestamp now wp =
        Inr (spec_waypoint_is_reachable ptgs m_infoPerPTG m_infoPerPTG_timestamp now wp)"
  proof (cases "length m_infoPerPTG < length ptgs \<or> m_infoPerPTG_timestamp = INVALID_TIMESTAMP \<or>
                timeDifference m_infoPerPTG_timestamp now > 0.5")
    case True
    then show ?thesis
      by (auto simp: impl_waypoint_is_reachable_def spec_waypoint_is_reachable_def)
  next
    case False
    then have "impl_waypoint_is_reachable ptgs m_infoPerPTG m_infoPerPTG_timestamp now wp =
               reachable_from ptgs m_infoPerPTG wp 0"
      by (simp add: impl_waypoint_is_reachable_def)
    with loop False show ?thesis
      by (simp add: spec_waypoint_is_reachable_def)
  qed
qed

text \<open>
  Two PTGs, the first not evaluated in the last tick: the query finds the free path of the
  second 200 ms after the tick, and answers false one second after it.
\<close>

theorem C8_reachability_query_witness:
  "ptg_contract example_ptg example_wp \<and>
   info_computed_or_empty example_ptg (example_infos ! 0) \<and>
   info_computed_or_empty example_ptg (example_infos ! 1) \<and>
   spec_waypoint_is_reachable [example_ptg, example_ptg] example_infos 10 (10 + 1 / 5) example_wp \<and>
   impl_waypoint_is_reachable [example_ptg, example_ptg] example_infos 10 (10 + 1 / 5) example_wp = Inr True \<and>
   timeDifference 10 11 > 0.5 \<and>
   impl_waypoint_is_reachable [example_ptg, example_ptg] example_infos 10 11 example_wp = Inr False"
proof -
  have c: "ptg_contract example_ptg example_wp"
    by (simp add: ptg_contract_def example_ptg_def)
  have i0: "info_computed_or_empty example_ptg (example_infos ! 0)"
    and i1: "info_computed_or_empty example_ptg (example_infos ! 1)"
    by (simp_all add: info_computed_or_empty_def example_infos_def example_ptg_def)
  have a: "\<forall>i < length [example_ptg, example_ptg].
             ptg_contract ([example_ptg, example_ptg] ! i) example_wp \<and>
             info_computed_or_empty ([example_ptg, example_ptg] ! i) (example_infos ! i)"
  proof (intro allI impI)
    fix i :: nat
    assume "i < length [example_ptg, example_ptg]"
    then have "i = 0 \<or> i = 1" by auto
    then show "ptg_contract ([example_ptg, example_ptg] ! i) example_wp \<and>
               info_computed_or_empty ([example_ptg, example_ptg] ! i) (example_infos ! i)"
      using c i0 i1 by auto
  qed
  have free: "spec_free_path example_ptg (example_infos ! 1) example_wp"
    by (simp add: spec_free_path_def example_infos_def example_ptg_def)
  have s: "spec_waypoint_is_reachable [example_ptg, example_ptg] example_infos 10 (10 + 1 / 5) example_wp"
    unfolding spec_waypoint_is_reachable_def
  proof (intro conjI)
    show "\<exists>i<length [example_ptg, example_ptg].
            spec_free_path ([example_ptg, example_ptg] ! i) (example_infos ! i) example_wp"
      using free by (intro exI [of _ 1]) simp
  qed (simp_all add: example_infos_def INVALID_TIMESTAMP_def timeDifference_def)
  have old: "timeDifference 10 11 > 0.5"
    by (simp add: timeDifference_def)
  note q = C8_reachability_query [of 10 _ "[example_ptg, example_ptg]" example_infos example_wp]
  have "impl_waypoint_is_reachable [example_ptg, example_ptg] example_infos 10 (10 + 1 / 5) example_wp = Inr True"
    using q [of "10 + 1 / 5"] a s by simp
  moreover have "impl_waypoint_is_reachable [example_ptg, example_ptg] example_infos 10 11 example_wp = Inr False"
    using q [of 11] old by blast
  ultimately show ?thesis using c i0 i1 s old by (intro conjI)
qed

end
